theory Spec2Isabelle
  imports Main
begin

section \<open>JavaScript values\<close>

text \<open>
  The values that flow through the client are the ones \<^verbatim>\<open>JSON.parse\<close> can build, plus
  \<^verbatim>\<open>undefined\<close>, which is \<open>None\<close> of \<open>jsval option\<close>. Strings are lists of 8-bit
  characters. A number is kept as the text it was read from; the value JavaScript gives it
  is the double nearest to that decimal (ties to even), and what the code can observe of
  it, whether it is zero and whether it is infinite, is computed from the text exactly.
\<close>

datatype jsval =
    JNull
  | JBool bool
  | JNum string
  | JStr string
  | JArr "jsval list"
  | JObj "(string \<times> jsval) list"

datatype ai_error_type =
    INVALID_API_KEY
  | RATE_LIMITED
  | NETWORK_ERROR
  | INVALID_RESPONSE
  | SERVER_ERROR
  | TIMEOUT
  | UNKNOWN

text \<open>
  Everything that is thrown: the module's own \<^verbatim>\<open>AIError(message, type, originalError)\<close>,
  the \<^verbatim>\<open>AbortError\<close> of an aborted \<^verbatim>\<open>fetch\<close>, and the engine's \<^verbatim>\<open>TypeError\<close> and
  \<^verbatim>\<open>SyntaxError\<close> (with their message). The wording of the engine's messages is V8's,
  without the quotes it puts around a property name; the code reads a message only to
  look for the word \<^verbatim>\<open>fetch\<close> in it.
\<close>

datatype js_error =
    AIError string ai_error_type "js_error option"
  | AbortError
  | TypeError string
  | SyntaxError string

subsection \<open>Strings\<close>

text \<open>White space as \<^verbatim>\<open>String.prototype.trim\<close> and the regular expression class
  \<^verbatim>\<open>\s\<close> see it, among the 8-bit characters: TAB, LF, VT, FF, CR, space, NBSP.\<close>

definition js_space :: "char \<Rightarrow> bool" where
  "js_space c = (of_char c \<in> {9, 10, 11, 12, 13, 32, 160 :: nat})"

definition trim :: "string \<Rightarrow> string" where
  "trim s = rev (dropWhile js_space (rev (dropWhile js_space s)))"

text \<open>\<open>split_first needle s\<close> cuts \<open>s\<close> at the leftmost occurrence of \<open>needle\<close>: the
  text before it and the text after it.\<close>

fun starts_with :: "string \<Rightarrow> string \<Rightarrow> bool" where
  "starts_with [] s = True"
| "starts_with (p # ps) [] = False"
| "starts_with (p # ps) (c # cs) = (p = c \<and> starts_with ps cs)"

fun split_first :: "string \<Rightarrow> string \<Rightarrow> (string \<times> string) option" where
  "split_first needle [] = (if needle = [] then Some ([], []) else None)"
| "split_first needle (c # cs) =
     (if starts_with needle (c # cs) then Some ([], drop (length needle) (c # cs))
      else (case split_first needle cs of
              None \<Rightarrow> None
            | Some (before, after) \<Rightarrow> Some (c # before, after)))"

text \<open>\<^verbatim>\<open>s.includes(needle)\<close>\<close>

definition str_includes :: "string \<Rightarrow> string \<Rightarrow> bool" where
  "str_includes s needle = (split_first needle s \<noteq> None)"

subsection \<open>Truth values, property reads, conversion to a string\<close>

definition is_digit :: "char \<Rightarrow> bool" where
  "is_digit c = (48 \<le> (of_char c :: nat) \<and> (of_char c :: nat) \<le> 57)"

text \<open>
  The decimal a number literal denotes is \<open>mantissa * 10 ^ exponent\<close>, up to its sign:
  the mantissa is the number written by all its digits before the exponent part, the
  exponent is the written exponent less the count of digits after the point.
\<close>

definition digits_value :: "string \<Rightarrow> int" where
  "digits_value ds = foldl (\<lambda>n c. 10 * n + (of_char c - 48)) 0 ds"

definition unsigned :: "string \<Rightarrow> string" where
  "unsigned l = (case l of [] \<Rightarrow> [] | c # r \<Rightarrow> if c = CHR ''-'' then r else l)"

definition fraction_digits :: "string \<Rightarrow> string" where
  "fraction_digits l =
     (case dropWhile is_digit (unsigned l) of
        [] \<Rightarrow> []
      | c # r \<Rightarrow> if c = CHR ''.'' then takeWhile is_digit r else [])"

definition written_exponent :: "string \<Rightarrow> int" where
  "written_exponent l =
     (case dropWhile (\<lambda>c. c \<noteq> CHR ''e'' \<and> c \<noteq> CHR ''E'') l of
        [] \<Rightarrow> 0
      | e # r \<Rightarrow>
          (case r of
             [] \<Rightarrow> 0
           | c # ds \<Rightarrow>
               if c = CHR ''-'' then - digits_value ds
               else if c = CHR ''+'' then digits_value ds
               else digits_value r))"

definition mantissa :: "string \<Rightarrow> int" where
  "mantissa l = digits_value (takeWhile is_digit (unsigned l) @ fraction_digits l)"

definition exponent :: "string \<Rightarrow> int" where
  "exponent l = written_exponent l - int (length (fraction_digits l))"

text \<open>
  The double nearest to the decimal is zero when the decimal is at most \<open>2 ^ -1075\<close>,
  half the least positive double, and infinite when it is at least
  \<open>2 ^ 1024 - 2 ^ 970\<close>, half way from the greatest finite double to \<open>2 ^ 1024\<close>.
\<close>

definition num_is_zero :: "string \<Rightarrow> bool" where
  "num_is_zero l =
     (mantissa l = 0 \<or>
      (exponent l < 0 \<and> mantissa l * 2 ^ 1075 \<le> 10 ^ nat (- exponent l)))"

definition num_is_infinite :: "string \<Rightarrow> bool" where
  "num_is_infinite l =
     (if 0 \<le> exponent l
      then 2 ^ 1024 - 2 ^ 970 \<le> mantissa l * 10 ^ nat (exponent l)
      else (2 ^ 1024 - 2 ^ 970) * 10 ^ nat (- exponent l) \<le> mantissa l)"

text \<open>\<^verbatim>\<open>!v\<close> is \<open>\<not> truthy v\<close>.\<close>

fun truthy :: "jsval option \<Rightarrow> bool" where
  "truthy None = False"
| "truthy (Some JNull) = False"
| "truthy (Some (JBool b)) = b"
| "truthy (Some (JNum l)) = (\<not> num_is_zero l)"
| "truthy (Some (JStr s)) = (s \<noteq> [])"
| "truthy (Some (JArr xs)) = True"
| "truthy (Some (JObj kvs)) = True"

text \<open>\<^verbatim>\<open>typeof v === 'object'\<close>: true of \<^verbatim>\<open>null\<close>, of arrays and of objects.\<close>

fun typeof_object :: "jsval option \<Rightarrow> bool" where
  "typeof_object (Some JNull) = True"
| "typeof_object (Some (JArr xs)) = True"
| "typeof_object (Some (JObj kvs)) = True"
| "typeof_object v = False"

fun typeof_string :: "jsval option \<Rightarrow> bool" where
  "typeof_string (Some (JStr s)) = True"
| "typeof_string v = False"

text \<open>An object built by \<^verbatim>\<open>JSON.parse\<close> keeps, for a key written twice, the value written
  last.\<close>

definition own_prop :: "(string \<times> jsval) list \<Rightarrow> string \<Rightarrow> jsval option" where
  "own_prop kvs k = map_of (rev kvs) k"

text \<open>
  \<^verbatim>\<open>v.name\<close>, for the names the code reads (\<^verbatim>\<open>verdict\<close>, \<^verbatim>\<open>risks\<close>, \<^verbatim>\<open>rewrites\<close>,
  \<^verbatim>\<open>short\<close>, \<^verbatim>\<open>warm\<close>, \<^verbatim>\<open>confident\<close>, \<^verbatim>\<open>choices\<close>, \<^verbatim>\<open>message\<close>, \<^verbatim>\<open>content\<close>): none of
  them is defined on a prototype, so the read is an own-property lookup on an object and
  \<^verbatim>\<open>undefined\<close> on an array or a primitive. Reading a property of \<^verbatim>\<open>undefined\<close> or \<^verbatim>\<open>null\<close>
  throws a \<^verbatim>\<open>TypeError\<close>.
\<close>

fun js_get :: "jsval option \<Rightarrow> string \<Rightarrow> js_error + jsval option" where
  "js_get None k =
     Inl (TypeError (''Cannot read properties of undefined (reading '' @ k @ '')''))"
| "js_get (Some JNull) k =
     Inl (TypeError (''Cannot read properties of null (reading '' @ k @ '')''))"
| "js_get (Some (JObj kvs)) k = Inr (own_prop kvs k)"
| "js_get (Some v) k = Inr None"

text \<open>\<^verbatim>\<open>v[0]\<close>: the first element of an array, the first character of a string, the
  property \<^verbatim>\<open>"0"\<close> of an object.\<close>

fun js_get0 :: "jsval option \<Rightarrow> js_error + jsval option" where
  "js_get0 None = Inl (TypeError ''Cannot read properties of undefined (reading 0)'')"
| "js_get0 (Some JNull) = Inl (TypeError ''Cannot read properties of null (reading 0)'')"
| "js_get0 (Some (JArr xs)) = Inr (case xs of [] \<Rightarrow> None | x # _ \<Rightarrow> Some x)"
| "js_get0 (Some (JStr s)) = Inr (case s of [] \<Rightarrow> None | c # _ \<Rightarrow> Some (JStr [c]))"
| "js_get0 (Some (JObj kvs)) = Inr (own_prop kvs ''0'')"
| "js_get0 (Some v) = Inr None"

fun join_with :: "string \<Rightarrow> string list \<Rightarrow> string" where
  "join_with sep [] = []"
| "join_with sep [x] = x"
| "join_with sep (x # y # ys) = x @ sep @ join_with sep (y # ys)"

text \<open>
  The conversion a template literal applies to an interpolated value. An array is joined
  with commas, \<^verbatim>\<open>null\<close> elements printing as nothing. An object prints as
  \<^verbatim>\<open>[object Object]\<close> through the inherited \<^verbatim>\<open>toString\<close>; an object with an own key
  \<^verbatim>\<open>toString\<close> shadows that method with a value that cannot be called, the inherited
  \<^verbatim>\<open>valueOf\<close> (or an own one) gives no primitive either, and the conversion throws a
  \<^verbatim>\<open>TypeError\<close>. An infinite number prints as \<^verbatim>\<open>Infinity\<close>, with its sign. A finite
  number prints here as the text it was read from, where JavaScript prints the shortest
  decimal of the same double: another spelling of the same number, which reads back as the
  same number wherever it is parsed again.
\<close>

fun js_to_string :: "jsval \<Rightarrow> js_error + string"
  and js_elems_to_strings :: "jsval list \<Rightarrow> js_error + string list" where
  "js_to_string JNull = Inr ''null''"
| "js_to_string (JBool b) = Inr (if b then ''true'' else ''false'')"
| "js_to_string (JNum l) =
     Inr (if num_is_infinite l
          then (if starts_with ''-'' l then ''-Infinity'' else ''Infinity'')
          else l)"
| "js_to_string (JStr s) = Inr s"
| "js_to_string (JArr xs) =
     (case js_elems_to_strings xs of Inl e \<Rightarrow> Inl e | Inr ss \<Rightarrow> Inr (join_with '','' ss))"
| "js_to_string (JObj kvs) =
     (if ''toString'' \<in> fst ` set kvs
      then Inl (TypeError ''Cannot convert object to primitive value'')
      else Inr ''[object Object]'')"
| "js_elems_to_strings [] = Inr []"
| "js_elems_to_strings (x # xs) =
     (case (if x = JNull then Inr [] else js_to_string x) of
        Inl e \<Rightarrow> Inl e
      | Inr s \<Rightarrow> (case js_elems_to_strings xs of Inl e \<Rightarrow> Inl e | Inr ss \<Rightarrow> Inr (s # ss)))"

definition to_string :: "jsval option \<Rightarrow> js_error + string" where
  "to_string v = (case v of None \<Rightarrow> Inr ''undefined'' | Some x \<Rightarrow> js_to_string x)"

section \<open>\<^verbatim>\<open>JSON.parse\<close>\<close>

text \<open>
  The built-in parser, as the JSON grammar defines it: a lexer that is a state machine
  over the characters, and a parser that is a stack machine over the tokens. Numbers and
  the three literals are read as a maximal run of word characters and checked afterwards.
  An escape \<^verbatim>\<open>\uXXXX\<close> above \<^verbatim>\<open>\u00FF\<close> names a character the 8-bit strings do not
  have. The code tells characters apart by three tests only: whether a character is white
  space for \<^verbatim>\<open>trim\<close> and \<^verbatim>\<open>\s\<close>, how the JSON grammar reads it, and whether it is one of
  the ASCII characters of a literal it looks for. So such a character is stored as the
  8-bit character that passes the same tests: a white space character as NBSP (white space
  for \<^verbatim>\<open>trim\<close>, not for JSON), any other as \<^verbatim>\<open>0xFF\<close>. Every answer of the code is then the
  same; only which character above \<^verbatim>\<open>\u00FF\<close> a string value holds is not kept.
\<close>

datatype token =
    TLBrace | TRBrace | TLBrack | TRBrack | TColon | TComma
  | TString string | TNumber string | TTrue | TFalse | TNull

definition json_ws :: "char \<Rightarrow> bool" where
  "json_ws c = (c \<in> {CHR '' '', CHR 0x09, CHR 0x0A, CHR 0x0D})"

definition in_range :: "char \<Rightarrow> char \<Rightarrow> char \<Rightarrow> bool" where
  "in_range lo hi c = ((of_char lo :: nat) \<le> of_char c \<and> (of_char c :: nat) \<le> of_char hi)"

definition word_char :: "char \<Rightarrow> bool" where
  "word_char c = (is_digit c \<or> in_range (CHR ''a'') (CHR ''z'') c \<or> in_range (CHR ''A'') (CHR ''Z'') c
                  \<or> c \<in> {CHR ''-'', CHR ''+'', CHR ''.''})"

text \<open>The number grammar: \<^verbatim>\<open>-? (0 | [1-9][0-9]*) (. [0-9]+)? ([eE] [+-]? [0-9]+)?\<close>\<close>

definition digits1 :: "string \<Rightarrow> bool" where
  "digits1 s = (s \<noteq> [] \<and> list_all is_digit s)"

definition valid_exp :: "string \<Rightarrow> bool" where
  "valid_exp s =
     (case s of
        [] \<Rightarrow> True
      | c # r \<Rightarrow> (c = CHR ''e'' \<or> c = CHR ''E'') \<and>
          (case r of
             [] \<Rightarrow> False
           | d # r' \<Rightarrow> if d = CHR ''+'' \<or> d = CHR ''-'' then digits1 r' else digits1 r))"

definition valid_frac_exp :: "string \<Rightarrow> bool" where
  "valid_frac_exp s =
     (case s of
        [] \<Rightarrow> True
      | c # r \<Rightarrow> if c = CHR ''.''
                then takeWhile is_digit r \<noteq> [] \<and> valid_exp (dropWhile is_digit r)
                else valid_exp s)"

definition valid_number :: "string \<Rightarrow> bool" where
  "valid_number s =
     (let u = (case s of [] \<Rightarrow> [] | c # r \<Rightarrow> if c = CHR ''-'' then r else s)
      in case u of
           [] \<Rightarrow> False
         | d # r \<Rightarrow> if d = CHR ''0'' then valid_frac_exp r
                   else is_digit d \<and> valid_frac_exp (dropWhile is_digit r))"

definition word_token :: "string \<Rightarrow> token option" where
  "word_token w =
     (if w = ''true'' then Some TTrue
      else if w = ''false'' then Some TFalse
      else if w = ''null'' then Some TNull
      else if valid_number w then Some (TNumber w)
      else None)"

definition hex_val :: "char \<Rightarrow> nat option" where
  "hex_val c =
     (if is_digit c then Some (of_char c - 48)
      else if in_range (CHR ''a'') (CHR ''f'') c then Some (of_char c - 87)
      else if in_range (CHR ''A'') (CHR ''F'') c then Some (of_char c - 55)
      else None)"

definition unescape :: "char \<Rightarrow> char option" where
  "unescape c =
     (if c = CHR 0x22 \<or> c = CHR 0x5C \<or> c = CHR ''/'' then Some c
      else if c = CHR ''b'' then Some (CHR 0x08)
      else if c = CHR ''f'' then Some (CHR 0x0C)
      else if c = CHR ''n'' then Some (CHR 0x0A)
      else if c = CHR ''r'' then Some (CHR 0x0D)
      else if c = CHR ''t'' then Some (CHR 0x09)
      else None)"

text \<open>The white space characters above \<^verbatim>\<open>\u00FF\<close>: U+1680, U+2000 to U+200A, U+2028,
  U+2029, U+202F, U+205F, U+3000 and U+FEFF.\<close>

definition wide_space :: "nat \<Rightarrow> bool" where
  "wide_space n =
     (n = 0x1680 \<or> (0x2000 \<le> n \<and> n \<le> 0x200A) \<or> n = 0x2028 \<or> n = 0x2029 \<or> n = 0x202F
      \<or> n = 0x205F \<or> n = 0x3000 \<or> n = 0xFEFF)"

definition code_unit :: "nat \<Rightarrow> char" where
  "code_unit n = (if n < 256 then char_of n else if wide_space n then CHR 0xA0 else CHR 0xFF)"

datatype lexmode =
    LIdle
  | LWord string
  | LStr string
  | LEsc string
  | LHex string nat nat

definition emit :: "token \<Rightarrow> token list option \<Rightarrow> token list option" where
  "emit t r = map_option (Cons t) r"

text \<open>A character met between tokens: the token it is, if it is one by itself, and the
  mode the lexer goes on in.\<close>

definition idle_char :: "char \<Rightarrow> (token option \<times> lexmode) option" where
  "idle_char c =
     (if json_ws c then Some (None, LIdle)
      else if c = CHR ''{'' then Some (Some TLBrace, LIdle)
      else if c = CHR ''}'' then Some (Some TRBrace, LIdle)
      else if c = CHR ''['' then Some (Some TLBrack, LIdle)
      else if c = CHR '']'' then Some (Some TRBrack, LIdle)
      else if c = CHR '':'' then Some (Some TColon, LIdle)
      else if c = CHR '','' then Some (Some TComma, LIdle)
      else if c = CHR 0x22 then Some (None, LStr [])
      else if word_char c then Some (None, LWord [c])
      else None)"

definition emit_opt :: "token option \<Rightarrow> token list option \<Rightarrow> token list option" where
  "emit_opt ot r = (case ot of None \<Rightarrow> r | Some t \<Rightarrow> emit t r)"

text \<open>The accumulators of \<open>LWord\<close>, \<open>LStr\<close>, \<open>LEsc\<close> and \<open>LHex\<close> hold the characters read
  so far, last first; \<open>LHex acc n v\<close> has read \<open>n\<close> hexadecimal digits of value \<open>v\<close>.\<close>

fun lexer :: "lexmode \<Rightarrow> string \<Rightarrow> token list option" where
  "lexer LIdle [] = Some []"
| "lexer (LWord w) [] = map_option (\<lambda>t. [t]) (word_token (rev w))"
| "lexer (LStr acc) [] = None"
| "lexer (LEsc acc) [] = None"
| "lexer (LHex acc n v) [] = None"
| "lexer LIdle (c # cs) =
     (case idle_char c of
        None \<Rightarrow> None
      | Some (ot, m) \<Rightarrow> emit_opt ot (lexer m cs))"
| "lexer (LWord w) (c # cs) =
     (if word_char c then lexer (LWord (c # w)) cs
      else (case word_token (rev w) of
              None \<Rightarrow> None
            | Some t \<Rightarrow>
                (case idle_char c of
                   None \<Rightarrow> None
                 | Some (ot, m) \<Rightarrow> emit t (emit_opt ot (lexer m cs)))))"
| "lexer (LStr acc) (c # cs) =
     (if c = CHR 0x22 then emit (TString (rev acc)) (lexer LIdle cs)
      else if c = CHR 0x5C then lexer (LEsc acc) cs
      else if (of_char c :: nat) < 32 then None
      else lexer (LStr (c # acc)) cs)"
| "lexer (LEsc acc) (c # cs) =
     (if c = CHR ''u'' then lexer (LHex acc 0 0) cs
      else (case unescape c of
              None \<Rightarrow> None
            | Some d \<Rightarrow> lexer (LStr (d # acc)) cs))"
| "lexer (LHex acc n v) (c # cs) =
     (case hex_val c of
        None \<Rightarrow> None
      | Some h \<Rightarrow>
          (if n < 3 then lexer (LHex acc (Suc n) (16 * v + h)) cs
           else lexer (LStr (code_unit (16 * v + h) # acc)) cs))"

datatype frame =
    FArr "jsval list"
  | FObj "(string \<times> jsval) list"
  | FKey "(string \<times> jsval) list" string

datatype pmode =
    MValue
  | MFirst
  | MKeyFirst
  | MKey
  | MColon
  | MAfter
  | MDone jsval

text \<open>A finished value goes to the container on top of the stack, or ends the text.\<close>

fun deliver :: "jsval \<Rightarrow> frame list \<Rightarrow> (pmode \<times> frame list) option" where
  "deliver v [] = Some (MDone v, [])"
| "deliver v (FArr acc # st) = Some (MAfter, FArr (v # acc) # st)"
| "deliver v (FKey kvs k # st) = Some (MAfter, FObj ((k, v) # kvs) # st)"
| "deliver v (FObj kvs # st) = None"

fun scalar :: "token \<Rightarrow> jsval option" where
  "scalar (TString s) = Some (JStr s)"
| "scalar (TNumber l) = Some (JNum l)"
| "scalar TTrue = Some (JBool True)"
| "scalar TFalse = Some (JBool False)"
| "scalar TNull = Some JNull"
| "scalar t = None"

text \<open>One token: the next mode and stack, or a syntax error.\<close>

definition pstep :: "pmode \<Rightarrow> frame list \<Rightarrow> token \<Rightarrow> (pmode \<times> frame list) option" where
  "pstep m st t =
     (if m = MValue \<or> m = MFirst then
        (if t = TLBrack then Some (MFirst, FArr [] # st)
         else if t = TLBrace then Some (MKeyFirst, FObj [] # st)
         else if t = TRBrack \<and> m = MFirst then
           (case st of FArr acc # st' \<Rightarrow> deliver (JArr []) st' | _ \<Rightarrow> None)
         else (case scalar t of None \<Rightarrow> None | Some v \<Rightarrow> deliver v st))
      else if m = MKeyFirst \<or> m = MKey then
        (case (t, st) of
           (TString k, FObj kvs # st') \<Rightarrow> Some (MColon, FKey kvs k # st')
         | (TRBrace, FObj kvs # st') \<Rightarrow> if m = MKeyFirst then deliver (JObj []) st' else None
         | _ \<Rightarrow> None)
      else if m = MColon then (if t = TColon then Some (MValue, st) else None)
      else if m = MAfter then
        (case (t, st) of
           (TComma, FArr acc # st') \<Rightarrow> Some (MValue, st)
         | (TComma, FObj kvs # st') \<Rightarrow> Some (MKey, st)
         | (TRBrack, FArr acc # st') \<Rightarrow> deliver (JArr (rev acc)) st'
         | (TRBrace, FObj kvs # st') \<Rightarrow> deliver (JObj (rev kvs)) st'
         | _ \<Rightarrow> None)
      else None)"

fun parse_tokens :: "pmode \<Rightarrow> frame list \<Rightarrow> token list \<Rightarrow> jsval option" where
  "parse_tokens m st [] = (case m of MDone v \<Rightarrow> Some v | _ \<Rightarrow> None)"
| "parse_tokens m st (t # ts) =
     (case pstep m st t of None \<Rightarrow> None | Some (m', st') \<Rightarrow> parse_tokens m' st' ts)"

definition JSON_parse :: "string \<Rightarrow> jsval option" where
  "JSON_parse text = (case lexer LIdle text of None \<Rightarrow> None | Some ts \<Rightarrow> parse_tokens MValue [] ts)"

section \<open>The API helper\<close>

text \<open>A step that may throw, followed by the rest of the computation.\<close>

definition bindE :: "'e + 'a \<Rightarrow> ('a \<Rightarrow> 'e + 'b) \<Rightarrow> 'e + 'b" where
  "bindE x f = (case x of Inl e \<Rightarrow> Inl e | Inr v \<Rightarrow> f v)"

subsection \<open>\<^verbatim>\<open>validateAnalysisResponse\<close>\<close>

definition validVerdicts :: "string list" where
  "validVerdicts = [''good_to_send'', ''needs_edit'', ''high_risk'']"

definition requiredRewrites :: "string list" where
  "requiredRewrites = [''short'', ''warm'', ''confident'']"

text \<open>\<^verbatim>\<open>validVerdicts.includes(v)\<close>: only a string is equal to a string.\<close>

fun includes_verdict :: "jsval option \<Rightarrow> bool" where
  "includes_verdict (Some (JStr s)) = (s \<in> set validVerdicts)"
| "includes_verdict v = False"

fun is_array :: "jsval option \<Rightarrow> bool" where
  "is_array (Some (JArr xs)) = True"
| "is_array v = False"

text \<open>The loop over \<^verbatim>\<open>requiredRewrites\<close>.\<close>

fun check_rewrites :: "jsval option \<Rightarrow> string list \<Rightarrow> js_error + string option" where
  "check_rewrites rewrites [] = Inr None"
| "check_rewrites rewrites (key # keys) =
     bindE (js_get rewrites key) (\<lambda>v.
       if \<not> typeof_string v then Inr (Some (''Missing rewrite: '' @ key))
       else check_rewrites rewrites keys)"

text \<open>The result is \<open>Inr None\<close> for \<^verbatim>\<open>null\<close> (valid), \<open>Inr (Some message)\<close> for an error
  message, and \<open>Inl e\<close> when the function throws \<open>e\<close>.\<close>

definition validateAnalysisResponse :: "jsval option \<Rightarrow> js_error + string option" where
  "validateAnalysisResponse data =
     (if \<not> truthy data \<or> \<not> typeof_object data then Inr (Some ''Response is not an object'')
      else bindE (js_get data ''verdict'') (\<lambda>verdict.
        if \<not> includes_verdict verdict
        then bindE (to_string verdict) (\<lambda>shown. Inr (Some (''Invalid verdict: '' @ shown)))
        else bindE (js_get data ''risks'') (\<lambda>risks.
          if \<not> is_array risks then Inr (Some ''Missing or invalid risks array'')
          else bindE (js_get data ''rewrites'') (\<lambda>rewrites.
            if \<not> truthy rewrites \<or> \<not> typeof_object rewrites
            then Inr (Some ''Missing or invalid rewrites object'')
            else check_rewrites rewrites requiredRewrites))))"

subsection \<open>\<^verbatim>\<open>parseAIResponse\<close>\<close>

text \<open>
  The first regular expression, a fence of three backquotes, an optional \<^verbatim>\<open>json\<close>, white
  space, a shortest body and a closing fence: the leftmost fence opens the match; the tag
  and the white space after it hold no backquote, so the body runs to the first fence that
  follows them, and where there is none no later start matches either. The result is the
  captured body.
\<close>

definition fence :: string where
  "fence = [CHR 0x60, CHR 0x60, CHR 0x60]"

definition match_code_block :: "string \<Rightarrow> string option" where
  "match_code_block content =
     (case split_first fence content of
        None \<Rightarrow> None
      | Some (before, opened) \<Rightarrow>
          (let tagged = (if starts_with ''json'' opened then drop 4 opened else opened);
               inner = dropWhile js_space tagged
           in case split_first fence inner of
                None \<Rightarrow> None
              | Some (captured, rest) \<Rightarrow> Some captured))"

text \<open>The second regular expression, an opening brace, anything at all, as much as can be,
  and a closing brace: from the first opening brace to the last closing brace after it.\<close>

definition match_object :: "string \<Rightarrow> string option" where
  "match_object content =
     (case dropWhile (\<lambda>c. c \<noteq> CHR ''{'') content of
        [] \<Rightarrow> None
      | b # after \<Rightarrow>
          (case rev (dropWhile (\<lambda>c. c \<noteq> CHR ''}'') (rev after)) of
             [] \<Rightarrow> None
           | span \<Rightarrow> Some (b # span)))"

definition could_not_parse :: js_error where
  "could_not_parse = AIError ''Could not parse AI response as JSON'' INVALID_RESPONSE None"

text \<open>\<^verbatim>\<open>try { return JSON.parse(x) } catch { }\<close>: the value, or nothing when the conversion
  of \<open>x\<close> to a string or the parse throws.\<close>

definition try_parse :: "jsval option \<Rightarrow> jsval option" where
  "try_parse x = (case to_string x of Inl e \<Rightarrow> None | Inr text \<Rightarrow> JSON_parse text)"

text \<open>\<^verbatim>\<open>content.match(...)\<close> exists on strings only; on anything else the call throws.\<close>

definition no_match_method :: "jsval option \<Rightarrow> js_error" where
  "no_match_method content =
     (case content of
        None \<Rightarrow> TypeError ''Cannot read properties of undefined (reading match)''
      | Some JNull \<Rightarrow> TypeError ''Cannot read properties of null (reading match)''
      | Some v \<Rightarrow> TypeError ''content.match is not a function'')"

definition parseAIResponse :: "jsval option \<Rightarrow> js_error + jsval" where
  "parseAIResponse content =
     (case try_parse content of
        Some v \<Rightarrow> Inr v
      | None \<Rightarrow>
          (case content of
             Some (JStr text) \<Rightarrow>
               (case (case match_code_block text of
                        None \<Rightarrow> None
                      | Some captured \<Rightarrow> JSON_parse (trim captured)) of
                  Some v \<Rightarrow> Inr v
                | None \<Rightarrow>
                    (case (case match_object text of
                             None \<Rightarrow> None
                           | Some span \<Rightarrow> JSON_parse span) of
                       Some v \<Rightarrow> Inr v
                     | None \<Rightarrow> Inl could_not_parse))
           | _ \<Rightarrow> Inl (no_match_method content)))"

subsection \<open>One request\<close>

fun show_nat :: "nat \<Rightarrow> string" where
  "show_nat n =
     (if n < 10 then [char_of (48 + n)]
      else show_nat (n div 10) @ [char_of (48 + n mod 10)])"

definition invalid_structure :: js_error where
  "invalid_structure = AIError ''Invalid response structure from API'' INVALID_RESPONSE None"

text \<open>
  What the body of the \<^verbatim>\<open>try\<close> does with a response of the given status and body, from
  \<^verbatim>\<open>if (!response.ok)\<close> to the validated object: \<open>Inl\<close> is what it throws.
  \<^verbatim>\<open>response.json()\<close> rejects with a \<^verbatim>\<open>SyntaxError\<close> on a body that is not JSON.
\<close>

definition handle_response :: "nat \<Rightarrow> string \<Rightarrow> js_error + jsval" where
  "handle_response status body =
     (if \<not> (200 \<le> status \<and> status \<le> 299) then
        (if status = 401 \<or> status = 403 then
           Inl (AIError ''Invalid API key. Please check your OpenRouter API key.''
                  INVALID_API_KEY None)
         else if status = 429 then
           Inl (AIError ''Rate limited. Please wait a moment and try again.'' RATE_LIMITED None)
         else if status \<ge> 500 then
           Inl (AIError ''OpenRouter server error. Please try again.'' SERVER_ERROR None)
         else Inl (AIError (''API error: '' @ show_nat status @ '' '' @ body) UNKNOWN None))
      else
        (case JSON_parse body of
           None \<Rightarrow> Inl (SyntaxError ''Unexpected token in JSON'')
         | Some data \<Rightarrow>
             bindE (js_get (Some data) ''choices'') (\<lambda>choices.
               if \<not> truthy choices then Inl invalid_structure
               else bindE (js_get0 choices) (\<lambda>first.
                 if \<not> truthy first then Inl invalid_structure
                 else bindE (js_get first ''message'') (\<lambda>message.
                   if \<not> truthy message then Inl invalid_structure
                   else bindE (js_get message ''content'') (\<lambda>content.
                     bindE (parseAIResponse content) (\<lambda>parsed.
                       bindE (validateAnalysisResponse (Some parsed)) (\<lambda>validationError.
                         case validationError of
                           None \<Rightarrow> Inr parsed
                         | Some reason \<Rightarrow>
                             if reason = [] then Inr parsed
                             else Inl (AIError (''Invalid analysis response: '' @ reason)
                                         INVALID_RESPONSE None)))))))))"

subsection \<open>The network and the clock\<close>

text \<open>
  Time is a count of milliseconds. The network is the environment: for the attempt with
  a given number it says how long the provider takes and what comes back, a failure of the
  connection (\<^verbatim>\<open>fetch\<close> rejects with a \<^verbatim>\<open>TypeError\<close> of that message) or a response with its
  status and body. The caller's \<^verbatim>\<open>signal\<close> is the time at which it is aborted, if ever.
  The request itself (the key, the model, the prompt and the message cut to its first
  10000 characters) has no influence on what the environment replies and is not part of
  the model; a body is read in one piece, together with its response.
\<close>

datatype net_reply = Fails string | Responds nat string

record options =
  model :: string
  maxRetries :: nat
  timeoutMs :: nat
  signal :: "nat option"

definition DEFAULT_MODEL :: string where
  "DEFAULT_MODEL = ''anthropic/claude-3.5-sonnet''"

definition default_options :: options where
  "default_options = \<lparr>model = DEFAULT_MODEL, maxRetries = 3, timeoutMs = 30000, signal = None\<rparr>"

definition aborted_at :: "nat option \<Rightarrow> nat \<Rightarrow> bool" where
  "aborted_at sig t = (case sig of None \<Rightarrow> False | Some a \<Rightarrow> a \<le> t)"

text \<open>
  \<^verbatim>\<open>fetch\<close> under the combined signal: rejected at once when the caller's signal is already
  aborted; otherwise the reply arrives after its latency unless the caller's signal or the
  timeout fires first, and then the call rejects with an \<^verbatim>\<open>AbortError\<close> at that moment. The
  result is the time at which the \<^verbatim>\<open>await\<close> resumes and what it resumes with.
\<close>

definition fetch :: "options \<Rightarrow> nat \<Rightarrow> nat \<times> net_reply \<Rightarrow> nat \<times> (js_error + nat \<times> string)" where
  "fetch opts now r =
     (if aborted_at (signal opts) now then (now, Inl AbortError)
      else
        (let deadline = (case signal opts of
                           None \<Rightarrow> now + timeoutMs opts
                         | Some a \<Rightarrow> min a (now + timeoutMs opts))
         in if now + fst r < deadline
            then (now + fst r,
                  case snd r of Fails m \<Rightarrow> Inl (TypeError m) | Responds st b \<Rightarrow> Inr (st, b))
            else (deadline, Inl AbortError)))"

text \<open>\<^verbatim>\<open>sleep(ms)\<close> resolves when its timer fires; it takes no signal.\<close>

definition sleep :: "nat \<Rightarrow> nat \<Rightarrow> nat" where
  "sleep ms now = now + ms"

definition backoff_delay :: "nat \<Rightarrow> nat" where
  "backoff_delay attempt = min (1000 * 2 ^ (attempt - 1)) 10000"

text \<open>The body of the \<^verbatim>\<open>try\<close>: when it ends, and with what.\<close>

definition try_body :: "options \<Rightarrow> nat \<Rightarrow> nat \<times> net_reply \<Rightarrow> nat \<times> (js_error + jsval)" where
  "try_body opts now r =
     (case fetch opts now r of
        (t, Inl e) \<Rightarrow> (t, Inl e)
      | (t, Inr (st, b)) \<Rightarrow> (t, handle_response st b))"

fun is_AIError :: "js_error \<Rightarrow> bool" where
  "is_AIError (AIError m ty orig) = True"
| "is_AIError e = False"

fun error_type :: "js_error \<Rightarrow> ai_error_type option" where
  "error_type (AIError m ty orig) = Some ty"
| "error_type e = None"

fun error_name :: "js_error \<Rightarrow> string" where
  "error_name (AIError m ty orig) = ''AIError''"
| "error_name AbortError = ''AbortError''"
| "error_name (TypeError m) = ''TypeError''"
| "error_name (SyntaxError m) = ''SyntaxError''"

fun error_message :: "js_error \<Rightarrow> string" where
  "error_message (AIError m ty orig) = m"
| "error_message AbortError = ''The user aborted a request.''"
| "error_message (TypeError m) = m"
| "error_message (SyntaxError m) = m"

fun is_TypeError :: "js_error \<Rightarrow> bool" where
  "is_TypeError (TypeError m) = True"
| "is_TypeError e = False"

text \<open>The \<^verbatim>\<open>catch\<close> block up to the backoff: either it throws, or the loop goes on with
  \<^verbatim>\<open>lastError\<close> set.\<close>

datatype caught = Throw js_error | Continue js_error

definition catch_block :: "js_error \<Rightarrow> caught" where
  "catch_block error =
     (if is_AIError error \<and>
         (error_type error = Some INVALID_API_KEY \<or> error_type error = Some INVALID_RESPONSE)
      then Throw error
      else if error_name error = ''AbortError''
      then Throw (AIError ''Request cancelled'' TIMEOUT (Some error))
      else if is_TypeError error \<and> str_includes (error_message error) ''fetch''
      then Continue (AIError ''Network error. Check your internet connection.''
                       NETWORK_ERROR (Some error))
      else Continue error)"

subsection \<open>\<^verbatim>\<open>analyzeMessage\<close>\<close>

text \<open>The object returned on success: the parsed answer with its \<^verbatim>\<open>_meta\<close>; the timestamp
  is the clock.\<close>

record analysis =
  parsed :: jsval
  meta_model :: string
  meta_timestamp :: nat
  meta_originalLength :: nat

text \<open>What a call does: how it settles, how many times the loop body ran, the delays it
  slept, and when it settled.\<close>

record run =
  outcome :: "js_error + analysis"
  attempts :: nat
  delays :: "nat list"
  finished :: nat

function retry_loop ::
  "(nat \<Rightarrow> nat \<times> net_reply) \<Rightarrow> options \<Rightarrow> nat \<Rightarrow> nat \<Rightarrow> nat \<Rightarrow> js_error option \<Rightarrow> nat list \<Rightarrow> run" where
  "retry_loop net opts len attempt now lastError slept =
     (if attempt \<le> maxRetries opts then
        (case try_body opts now (net attempt) of
           (t, Inr v) \<Rightarrow>
             \<lparr>outcome = Inr \<lparr>parsed = v, meta_model = model opts, meta_timestamp = t,
                             meta_originalLength = len\<rparr>,
              attempts = attempt, delays = slept, finished = t\<rparr>
         | (t, Inl error) \<Rightarrow>
             (case catch_block error of
                Throw e \<Rightarrow> \<lparr>outcome = Inl e, attempts = attempt, delays = slept, finished = t\<rparr>
              | Continue recorded \<Rightarrow>
                  (if attempt < maxRetries opts
                   then retry_loop net opts len (attempt + 1) (sleep (backoff_delay attempt) t)
                          (Some recorded) (slept @ [backoff_delay attempt])
                   else retry_loop net opts len (attempt + 1) t (Some recorded) slept)))
      else
        \<lparr>outcome = Inl (case lastError of
                          Some e \<Rightarrow> e
                        | None \<Rightarrow> AIError ''Request failed after retries'' UNKNOWN None),
         attempts = attempt - 1, delays = slept, finished = now\<rparr>)"
  by pat_completeness auto
termination
  by (relation "measure (\<lambda>(net, opts, len, attempt, now, lastError, slept).
                           Suc (maxRetries opts) - attempt)") auto

text \<open>\<^verbatim>\<open>!x || typeof x !== 'string' || x.trim().length === 0\<close>\<close>

definition blank :: "jsval option \<Rightarrow> bool" where
  "blank x =
     (\<not> truthy x \<or> \<not> typeof_string x \<or>
      (case x of Some (JStr s) \<Rightarrow> length (trim s) = 0 | _ \<Rightarrow> True))"

definition MAX_MESSAGE_LENGTH :: nat where
  "MAX_MESSAGE_LENGTH = 10000"

text \<open>\<^verbatim>\<open>message.slice(0, MAX_MESSAGE_LENGTH)\<close>, the text that is sent.\<close>

definition trimmedMessage :: "string \<Rightarrow> string" where
  "trimmedMessage message = take MAX_MESSAGE_LENGTH message"

fun str_length :: "jsval option \<Rightarrow> nat" where
  "str_length (Some (JStr s)) = length s"
| "str_length v = 0"

definition analyzeMessage ::
  "(nat \<Rightarrow> nat \<times> net_reply) \<Rightarrow> jsval option \<Rightarrow> jsval option \<Rightarrow> options \<Rightarrow> nat \<Rightarrow> run" where
  "analyzeMessage net message apiKey opts now =
     (if blank message then
        \<lparr>outcome = Inl (AIError ''Message is required'' INVALID_RESPONSE None),
         attempts = 0, delays = [], finished = now\<rparr>
      else if blank apiKey then
        \<lparr>outcome = Inl (AIError ''API key is required'' INVALID_API_KEY None),
         attempts = 0, delays = [], finished = now\<rparr>
      else retry_loop net opts (str_length message) 1 now None [])"

section \<open>The chat hook\<close>

datatype chat_status = IDLE | SCANNING | COMPLETE | ERROR

record error_info =
  info_type :: string
  info_message :: string

record history_entry =
  entry_id :: string
  entry_timestamp :: nat
  entry_originalMessage :: string
  entry_result :: analysis
  entry_model :: string

text \<open>
  The state of one mounted hook. Every \<^verbatim>\<open>AbortController\<close> the hook has created is an
  index into \<open>controllers\<close>, which holds the time at which it was aborted, if it was;
  \<open>abortControllerRef\<close> is the one the ref points to.
\<close>

record chat =
  apiKey :: string
  selectedModel :: string
  history :: "history_entry list option"
  currentMessage :: string
  status :: chat_status
  result :: "analysis option"
  error :: "error_info option"
  controllers :: "nat option list"
  abortControllerRef :: "nat option"
  isMounted :: bool

definition hasApiKey :: "chat \<Rightarrow> bool" where
  "hasApiKey s = (apiKey s \<noteq> [] \<and> length (apiKey s) > 0)"

definition initial_chat :: "string \<Rightarrow> string \<Rightarrow> history_entry list option \<Rightarrow> chat" where
  "initial_chat key chosen stored =
     \<lparr>apiKey = key, selectedModel = chosen, history = stored, currentMessage = [],
      status = IDLE, result = None, error = None, controllers = [],
      abortControllerRef = None, isMounted = True\<rparr>"

text \<open>\<^verbatim>\<open>controller.abort()\<close>: the first call aborts, a later one changes nothing.\<close>

definition abort :: "nat \<Rightarrow> nat \<Rightarrow> chat \<Rightarrow> chat" where
  "abort c now s =
     (if c < length (controllers s) \<and> controllers s ! c = None
      then s\<lparr>controllers := (controllers s)[c := Some now]\<rparr>
      else s)"

definition safeSetState :: "chat \<Rightarrow> (chat \<Rightarrow> chat) \<Rightarrow> chat" where
  "safeSetState s setter = (if isMounted s then setter s else s)"

text \<open>\<^verbatim>\<open>newHistory.slice(-50)\<close> of \<^verbatim>\<open>[...(prev || []), historyEntry]\<close>\<close>

definition slice_last :: "nat \<Rightarrow> 'a list \<Rightarrow> 'a list" where
  "slice_last n xs = drop (length xs - n) xs"

definition add_to_history :: "'a list option \<Rightarrow> 'a \<Rightarrow> 'a list" where
  "add_to_history prev historyEntry =
     (let newHistory = (case prev of None \<Rightarrow> [] | Some xs \<Rightarrow> xs) @ [historyEntry]
      in slice_last 50 newHistory)"

text \<open>
  What a pending call of \<^verbatim>\<open>submitMessage\<close> holds on to across its \<^verbatim>\<open>await\<close>: the trimmed
  message, the key and the model of the render it was created in, the controller whose
  signal it passed on, and the stored history that the \<^verbatim>\<open>setHistory\<close> of that render
  applies its update to.
\<close>

record request =
  req_message :: string
  req_apiKey :: string
  req_model :: string
  req_controller :: nat
  req_history :: "history_entry list option"

text \<open>\<^verbatim>\<open>submitMessage\<close> up to its \<^verbatim>\<open>await\<close>: the new state and, when a request starts, what
  the call holds on to.\<close>

definition submit_begin :: "chat \<Rightarrow> string \<Rightarrow> nat \<Rightarrow> chat \<times> request option" where
  "submit_begin s message now =
     (if message = [] \<or> length (trim message) = 0 then
        (s\<lparr>error := Some \<lparr>info_type = ''VALIDATION'',
                           info_message = ''Please enter a message to analyze''\<rparr>\<rparr>, None)
      else if \<not> hasApiKey s then
        (s\<lparr>error := Some \<lparr>info_type = ''NO_API_KEY'',
                           info_message = ''Please add your OpenRouter API key''\<rparr>\<rparr>, None)
      else
        (let s1 = (case abortControllerRef s of None \<Rightarrow> s | Some c \<Rightarrow> abort c now s);
             fresh = length (controllers s1);
             s2 = s1\<lparr>controllers := controllers s1 @ [None], abortControllerRef := Some fresh\<rparr>;
             s3 = safeSetState s2 (\<lambda>u. u\<lparr>currentMessage := trim message, status := SCANNING,
                                          error := None, result := None\<rparr>)
         in (s3, Some \<lparr>req_message = trim message, req_apiKey = apiKey s,
                       req_model = selectedModel s, req_controller = fresh,
                       req_history = history s\<rparr>)))"

fun type_name :: "ai_error_type \<Rightarrow> string" where
  "type_name INVALID_API_KEY = ''INVALID_API_KEY''"
| "type_name RATE_LIMITED = ''RATE_LIMITED''"
| "type_name NETWORK_ERROR = ''NETWORK_ERROR''"
| "type_name INVALID_RESPONSE = ''INVALID_RESPONSE''"
| "type_name SERVER_ERROR = ''SERVER_ERROR''"
| "type_name TIMEOUT = ''TIMEOUT''"
| "type_name UNKNOWN = ''UNKNOWN''"

text \<open>The \<^verbatim>\<open>switch\<close> over the type of an \<^verbatim>\<open>AIError\<close>.\<close>

fun ai_error_info :: "string \<Rightarrow> ai_error_type \<Rightarrow> error_info" where
  "ai_error_info m INVALID_API_KEY =
     \<lparr>info_type = ''INVALID_API_KEY'',
      info_message = ''Your API key is invalid. Please check and update it.''\<rparr>"
| "ai_error_info m RATE_LIMITED =
     \<lparr>info_type = ''RATE_LIMITED'',
      info_message = ''Too many requests. Please wait a moment and try again.''\<rparr>"
| "ai_error_info m NETWORK_ERROR =
     \<lparr>info_type = ''NETWORK_ERROR'',
      info_message = ''Network error. Please check your internet connection.''\<rparr>"
| "ai_error_info m TIMEOUT =
     \<lparr>info_type = ''TIMEOUT'', info_message = ''Request timed out. Please try again.''\<rparr>"
| "ai_error_info m SERVER_ERROR =
     \<lparr>info_type = ''SERVER_ERROR'',
      info_message = ''Server error. Please try again in a moment.''\<rparr>"
| "ai_error_info m ty = \<lparr>info_type = type_name ty, info_message = m\<rparr>"

text \<open>
  \<^verbatim>\<open>submitMessage\<close> after its \<^verbatim>\<open>await\<close>, for the call that holds \<open>req\<close>, once
  \<^verbatim>\<open>analyzeMessage\<close> has settled with \<open>settled\<close>; \<open>new_id\<close> is the identifier drawn for the
  history entry.
\<close>

definition submit_settle :: "chat \<Rightarrow> request \<Rightarrow> string \<Rightarrow> nat \<Rightarrow> js_error + analysis \<Rightarrow> chat" where
  "submit_settle s req new_id now settled =
     (case settled of
        Inr analysisResult \<Rightarrow>
          (let historyEntry = \<lparr>entry_id = new_id, entry_timestamp = now,
                                entry_originalMessage = req_message req,
                                entry_result = analysisResult, entry_model = req_model req\<rparr>
           in safeSetState s (\<lambda>u. u\<lparr>result := Some analysisResult, status := COMPLETE,
                                     history := Some (add_to_history (req_history req) historyEntry)\<rparr>))
      | Inl err \<Rightarrow>
          (case err of
             AIError m ty orig \<Rightarrow>
               safeSetState s (\<lambda>u. u\<lparr>error := Some (ai_error_info m ty), status := ERROR\<rparr>)
           | _ \<Rightarrow>
               if error_name err = ''AbortError''
               then safeSetState s (\<lambda>u. u\<lparr>status := IDLE\<rparr>)
               else safeSetState s (\<lambda>u. u\<lparr>error := Some \<lparr>info_type = ''UNKNOWN'',
                                            info_message = ''An unexpected error occurred''\<rparr>,
                                         status := ERROR\<rparr>)))"

text \<open>The call the pending request makes, seen from a state in which the fate of its
  controller is known: the signal it passed on is aborted when that controller was.\<close>

definition request_run :: "(nat \<Rightarrow> nat \<times> net_reply) \<Rightarrow> chat \<Rightarrow> request \<Rightarrow> nat \<Rightarrow> run" where
  "request_run net s req started =
     analyzeMessage net (Some (JStr (req_message req))) (Some (JStr (req_apiKey req)))
       (default_options\<lparr>model := req_model req,
                         signal := (if req_controller req < length (controllers s)
                                    then controllers s ! req_controller req else None)\<rparr>)
       started"

definition cancelRequest :: "chat \<Rightarrow> nat \<Rightarrow> chat" where
  "cancelRequest s now =
     (let s1 = (case abortControllerRef s of
                  None \<Rightarrow> s
                | Some c \<Rightarrow> (abort c now s)\<lparr>abortControllerRef := None\<rparr>)
      in safeSetState s1 (\<lambda>u. u\<lparr>status := IDLE, error := None\<rparr>))"

definition reset :: "chat \<Rightarrow> nat \<Rightarrow> chat" where
  "reset s now =
     safeSetState (cancelRequest s now)
       (\<lambda>u. u\<lparr>currentMessage := [], result := None, error := None, status := IDLE\<rparr>)"

definition unmount :: "chat \<Rightarrow> nat \<Rightarrow> chat" where
  "unmount s now =
     (let s1 = s\<lparr>isMounted := False\<rparr>
      in case abortControllerRef s1 of None \<Rightarrow> s1 | Some c \<Rightarrow> abort c now s1)"

section \<open>Scenarios and notions used in the statements\<close>

text \<open>An analysis result to store.\<close>

definition sample_analysis :: analysis where
  "sample_analysis = \<lparr>parsed = JNull, meta_model = [], meta_timestamp = 0, meta_originalLength = 0\<rparr>"

text \<open>What the body of the \<^verbatim>\<open>try\<close> ends with when a reply arrives in time and uncancelled;
  the error the \<^verbatim>\<open>catch\<close> block then records as \<^verbatim>\<open>lastError\<close>, if the loop goes on after it;
  and whether that is an \<^verbatim>\<open>AIError\<close> of a retryable kind.\<close>

definition settles_with :: "net_reply \<Rightarrow> js_error + jsval" where
  "settles_with rep =
     (case rep of Fails m \<Rightarrow> Inl (TypeError m) | Responds st b \<Rightarrow> handle_response st b)"

definition recorded :: "net_reply \<Rightarrow> js_error option" where
  "recorded rep =
     (case settles_with rep of
        Inr v \<Rightarrow> None
      | Inl e \<Rightarrow> (case catch_block e of Throw e' \<Rightarrow> None | Continue r \<Rightarrow> Some r))"

definition retryable :: "net_reply \<Rightarrow> bool" where
  "retryable rep =
     (case recorded rep of
        Some (AIError m ty orig) \<Rightarrow> ty \<in> {RATE_LIMITED, NETWORK_ERROR, SERVER_ERROR, UNKNOWN}
      | _ \<Rightarrow> False)"

text \<open>A provider that gives the same reply, after the same latency, to every attempt.\<close>

definition always :: "nat \<Rightarrow> net_reply \<Rightarrow> nat \<Rightarrow> nat \<times> net_reply" where
  "always lat rep k = (lat, rep)"

text \<open>A string as a JSON string literal, and the provider's response body around a given
  content. \<open>good_answer\<close> is a model output that conforms to the analysis shape.\<close>

definition quoted :: "string \<Rightarrow> string" where
  "quoted s =
     CHR 0x22 # concat (map (\<lambda>c. if c = CHR 0x22 \<or> c = CHR 0x5C then [CHR 0x5C, c] else [c]) s)
       @ [CHR 0x22]"

definition good_answer :: string where
  \<open>good_answer =
     ''{"verdict":"good_to_send","verdictReason":"Clear.","risks":[],"missing":[],'' @
     ''"rewrites":{"short":"a","warm":"b","confident":"c"}}''\<close>


definition completion :: "string \<Rightarrow> string" where
  \<open>completion content = ''{"choices":[{"message":{"role":"assistant","content":'' @ quoted content @ ''}}]}''\<close>


text \<open>A 200 response whose message has no \<^verbatim>\<open>content\<close>, and a model output whose verdict is an
  object with a key \<^verbatim>\<open>toString\<close>.\<close>

definition content_missing :: string where
  \<open>content_missing = ''{"choices":[{"message":{"role":"assistant"}}]}''\<close>

definition unprintable_verdict :: string where
  \<open>unprintable_verdict =
     ''{"verdict":{"toString":0},"risks":[],"rewrites":{"short":"a","warm":"b","confident":"c"}}''\<close>

definition unprintable_parsed :: jsval where
  "unprintable_parsed =
     JObj [(''verdict'', JObj [(''toString'', JNum ''0'')]), (''risks'', JArr []),
           (''rewrites'', JObj [(''short'', JStr ''a''), (''warm'', JStr ''b''),
                               (''confident'', JStr ''c'')])]"

text \<open>Two submissions in a row: the first at time 0, the second at time 10 while the first
  is in flight against a provider that takes 100 ms to answer. \<open>superseded_run\<close> is the first
  request's call of \<^verbatim>\<open>analyzeMessage\<close>, whose signal the second submission aborted, and
  \<open>after_stale\<close> the state once the first call of \<^verbatim>\<open>submitMessage\<close> has resumed with it.\<close>

definition chat0 :: chat where
  "chat0 = initial_chat ''sk-or-1'' DEFAULT_MODEL (Some [])"

definition first_request :: request where
  "first_request = \<lparr>req_message = ''first draft'', req_apiKey = ''sk-or-1'',
                      req_model = DEFAULT_MODEL, req_controller = 0, req_history = Some []\<rparr>"

definition after_first :: chat where
  "after_first = fst (submit_begin chat0 ''first draft'' 0)"

definition after_second :: chat where
  "after_second = fst (submit_begin after_first ''second draft'' 10)"

definition slow_provider :: "nat \<Rightarrow> nat \<times> net_reply" where
  "slow_provider = always 100 (Responds 200 (completion good_answer))"

definition superseded_run :: run where
  "superseded_run = request_run slow_provider after_second first_request 0"

definition after_stale :: chat where
  "after_stale =
     submit_settle after_second first_request ''id-1'' (finished superseded_run)
       (outcome superseded_run)"

definition no_choices :: string where
  \<open>no_choices = ''{"choices":[]}''\<close>

text \<open>Model outputs that hold the same small object: by itself, in a fenced block within
  prose, within prose, and within prose that has braces of its own.\<close>

definition tiny_object :: string where
  \<open>tiny_object = ''{"a":1}''\<close>

definition braces_in_prose :: string where
  \<open>braces_in_prose = ''Use {x}: {"a":1}''\<close>

definition fenced_answer :: string where
  "fenced_answer = ''Here you go: '' @ fence @ ''json'' @ [CHR 0x0A] @ tiny_object @ [CHR 0x0A] @ fence
                     @ '' Hope it helps.''"

definition answer_in_prose :: string where
  \<open>answer_in_prose = ''Sure. {"a":1} Hope it helps.''\<close>

section \<open>The retry loop, step by step\<close>

declare retry_loop.simps [simp del]

lemma fetch_arrives:
  "signal opts = None \<Longrightarrow> fst r < timeoutMs opts \<Longrightarrow>
   fetch opts now r =
     (now + fst r, case snd r of Fails m \<Rightarrow> Inl (TypeError m) | Responds st b \<Rightarrow> Inr (st, b))"
  by (simp add: fetch_def aborted_at_def)

lemma try_body_arrives:
  "signal opts = None \<Longrightarrow> fst r < timeoutMs opts \<Longrightarrow>
   try_body opts now r = (now + fst r, settles_with (snd r))"
  by (simp add: try_body_def fetch_arrives settles_with_def split: net_reply.split)

lemma try_body_aborted:
  "signal opts = Some a \<Longrightarrow> a \<le> now \<Longrightarrow> try_body opts now r = (now, Inl AbortError)"
  by (simp add: try_body_def fetch_def aborted_at_def)

lemma retry_loop_success:
  assumes "attempt \<le> maxRetries opts"
    and "try_body opts now (net attempt) = (t, Inr v)"
  shows "retry_loop net opts len attempt now lastError slept =
           \<lparr>outcome = Inr \<lparr>parsed = v, meta_model = model opts, meta_timestamp = t,
                           meta_originalLength = len\<rparr>,
            attempts = attempt, delays = slept, finished = t\<rparr>"
  using assms by (subst retry_loop.simps) simp

lemma retry_loop_throw:
  assumes "attempt \<le> maxRetries opts"
    and "try_body opts now (net attempt) = (t, Inl e)"
    and "catch_block e = Throw e'"
  shows "retry_loop net opts len attempt now lastError slept =
           \<lparr>outcome = Inl e', attempts = attempt, delays = slept, finished = t\<rparr>"
  using assms by (subst retry_loop.simps) simp

lemma retry_loop_continue:
  assumes "attempt < maxRetries opts"
    and "try_body opts now (net attempt) = (t, Inl e)"
    and "catch_block e = Continue r"
  shows "retry_loop net opts len attempt now lastError slept =
           retry_loop net opts len (attempt + 1) (t + backoff_delay attempt) (Some r)
             (slept @ [backoff_delay attempt])"
  using assms by (subst retry_loop.simps) (simp add: sleep_def)

lemma retry_loop_last:
  assumes "attempt = maxRetries opts"
    and "try_body opts now (net attempt) = (t, Inl e)"
    and "catch_block e = Continue r"
  shows "retry_loop net opts len attempt now lastError slept =
           \<lparr>outcome = Inl r, attempts = attempt, delays = slept, finished = t\<rparr>"
  using assms
  by (subst retry_loop.simps, simp, subst retry_loop.simps, simp)

lemma catch_block_non_retryable:
  "ty = INVALID_API_KEY \<or> ty = INVALID_RESPONSE \<Longrightarrow>
   catch_block (AIError m ty orig) = Throw (AIError m ty orig)"
  by (auto simp add: catch_block_def)

lemma catch_block_abort: "catch_block AbortError = Throw (AIError ''Request cancelled'' TIMEOUT (Some AbortError))"
  by (simp add: catch_block_def)

lemma handle_response_401:
  "st = 401 \<or> st = 403 \<Longrightarrow>
   handle_response st body =
     Inl (AIError ''Invalid API key. Please check your OpenRouter API key.'' INVALID_API_KEY None)"
  by (auto simp add: handle_response_def)

lemma retry_loop_exhaust:
  assumes sig: "signal opts = None"
    and all: "\<forall>k. attempt \<le> k \<and> k \<le> maxRetries opts \<longrightarrow>
                 fst (net k) < timeoutMs opts \<and> recorded (snd (net k)) \<noteq> None"
    and le: "attempt \<le> maxRetries opts"
  shows "\<exists>t. retry_loop net opts len attempt now lastError slept =
           \<lparr>outcome = Inl (the (recorded (snd (net (maxRetries opts))))),
            attempts = maxRetries opts,
            delays = slept @ map backoff_delay [attempt ..< maxRetries opts],
            finished = t\<rparr>"
  using all le
proof (induction "maxRetries opts - attempt" arbitrary: attempt now lastError slept)
  case 0
  then have eq: "attempt = maxRetries opts" by simp
  from 0 have "fst (net attempt) < timeoutMs opts" and r: "recorded (snd (net attempt)) \<noteq> None" by auto
  then have tb: "try_body opts now (net attempt) = (now + fst (net attempt), settles_with (snd (net attempt)))"
    using sig by (simp add: try_body_arrives)
  from r obtain e rec where e: "settles_with (snd (net attempt)) = Inl e"
    and c: "catch_block e = Continue rec" and rc: "recorded (snd (net attempt)) = Some rec"
    by (auto simp add: recorded_def split: option.splits sum.splits caught.splits)
  from tb e have "try_body opts now (net attempt) = (now + fst (net attempt), Inl e)" by simp
  from retry_loop_last [where net = net and attempt = attempt, OF eq this c] rc eq
  show ?case by simp
next
  case (Suc d)
  then have lt: "attempt < maxRetries opts" by simp
  from Suc.prems have "fst (net attempt) < timeoutMs opts" and r: "recorded (snd (net attempt)) \<noteq> None" by auto
  then have tb: "try_body opts now (net attempt) = (now + fst (net attempt), settles_with (snd (net attempt)))"
    using sig by (simp add: try_body_arrives)
  from r obtain e rec where e: "settles_with (snd (net attempt)) = Inl e"
    and c: "catch_block e = Continue rec"
    by (auto simp add: recorded_def split: option.splits sum.splits caught.splits)
  from tb e have tb': "try_body opts now (net attempt) = (now + fst (net attempt), Inl e)" by simp
  have d: "d = maxRetries opts - (attempt + 1)" using Suc.hyps(2) by simp
  have all': "\<forall>k. attempt + 1 \<le> k \<and> k \<le> maxRetries opts \<longrightarrow>
                 fst (net k) < timeoutMs opts \<and> recorded (snd (net k)) \<noteq> None"
    using Suc.prems(1) by simp
  from Suc.hyps(1) [OF d all'] lt
  obtain t where "retry_loop net opts len (attempt + 1) (now + fst (net attempt) + backoff_delay attempt)
      (Some rec) (slept @ [backoff_delay attempt]) =
           \<lparr>outcome = Inl (the (recorded (snd (net (maxRetries opts))))),
            attempts = maxRetries opts,
            delays = (slept @ [backoff_delay attempt]) @ map backoff_delay [attempt + 1 ..< maxRetries opts],
            finished = t\<rparr>"
    by (metis Suc_eq_plus1 Suc_leI)
  moreover have "[attempt ..< maxRetries opts] = attempt # [attempt + 1 ..< maxRetries opts]"
    using lt by (simp add: upt_conv_Cons)
  ultimately show ?case
    using retry_loop_continue [where net = net and attempt = attempt, OF lt tb' c] by simp
qed


lemma retry_loop_attempts_ge:
  assumes "attempt \<le> maxRetries opts"
  shows "attempt \<le> attempts (retry_loop net opts len attempt now lastError slept)"
  using assms
proof (induction "maxRetries opts - attempt" arbitrary: attempt now lastError slept)
  case 0
  then have eq: "attempt = maxRetries opts" and le: "attempt \<le> maxRetries opts" by simp_all
  obtain t res where tb: "try_body opts now (net attempt) = (t, res)"
    by (cases "try_body opts now (net attempt)")
  show ?case
  proof (cases res)
    case (Inr v)
    with tb have "try_body opts now (net attempt) = (t, Inr v)" by simp
    from retry_loop_success [where net = net and attempt = attempt, OF le this]
    show ?thesis by simp
  next
    case (Inl e)
    with tb have tb': "try_body opts now (net attempt) = (t, Inl e)" by simp
    show ?thesis
    proof (cases "catch_block e")
      case (Throw e')
      from retry_loop_throw [where net = net and attempt = attempt, OF le tb' Throw]
      show ?thesis by simp
    next
      case (Continue r)
      from retry_loop_last [where net = net and attempt = attempt, OF eq tb' Continue]
      show ?thesis by simp
    qed
  qed
next
  case (Suc d)
  then have lt: "attempt < maxRetries opts" and le: "attempt \<le> maxRetries opts" by simp_all
  obtain t res where tb: "try_body opts now (net attempt) = (t, res)"
    by (cases "try_body opts now (net attempt)")
  show ?case
  proof (cases res)
    case (Inr v)
    with tb have "try_body opts now (net attempt) = (t, Inr v)" by simp
    from retry_loop_success [where net = net and attempt = attempt, OF le this]
    show ?thesis by simp
  next
    case (Inl e)
    with tb have tb': "try_body opts now (net attempt) = (t, Inl e)" by simp
    show ?thesis
    proof (cases "catch_block e")
      case (Throw e')
      from retry_loop_throw [where net = net and attempt = attempt, OF le tb' Throw]
      show ?thesis by simp
    next
      case (Continue r)
      have d: "d = maxRetries opts - (attempt + 1)" using Suc.hyps(2) by simp
      have "attempt + 1 \<le> attempts (retry_loop net opts len (attempt + 1) (t + backoff_delay attempt)
               (Some r) (slept @ [backoff_delay attempt]))"
        using Suc.hyps(1) [OF d] lt by simp
      with retry_loop_continue [where net = net and attempt = attempt, OF lt tb' Continue]
      show ?thesis by simp
    qed
  qed
qed

section \<open>Superseded requests\<close>

lemma abort_length [simp]: "length (controllers (abort c now s)) = length (controllers s)"
  by (simp add: abort_def)

lemma abort_live:
  "c < length (controllers s) \<Longrightarrow> controllers s ! c = None \<Longrightarrow>
   controllers (abort c now s) ! c = Some now"
  by (simp add: abort_def)

lemma abort_fields [simp]:
  "isMounted (abort c now s) = isMounted s"
  "apiKey (abort c now s) = apiKey s"
  "selectedModel (abort c now s) = selectedModel s"
  "history (abort c now s) = history s"
  by (simp_all add: abort_def)

text \<open>
  The part of claim C1 that the code keeps. A submission made while a request is running
  aborts that request's controller at once, before the new request starts, and makes a
  fresh controller the current one.
\<close>

lemma submit_cancels_running:
  assumes "message \<noteq> []" and "trim message \<noteq> []" and "hasApiKey s"
    and "abortControllerRef s = Some c" and "c < length (controllers s)"
    and "controllers s ! c = None"
  shows "submit_begin s message now =
           (safeSetState
              ((abort c now s)\<lparr>controllers := controllers (abort c now s) @ [None],
                                abortControllerRef := Some (length (controllers s))\<rparr>)
              (\<lambda>u. u\<lparr>currentMessage := trim message, status := SCANNING,
                       error := None, result := None\<rparr>),
            Some \<lparr>req_message = trim message, req_apiKey = apiKey s,
                  req_model = selectedModel s, req_controller = length (controllers s),
                  req_history = history s\<rparr>)"
    and "controllers (fst (submit_begin s message now)) ! c = Some now"
    and "abortControllerRef (fst (submit_begin s message now)) = Some (length (controllers s))"
    and "controllers (fst (submit_begin s message now)) ! length (controllers s) = None"
    and "isMounted s \<Longrightarrow> status (fst (submit_begin s message now)) = SCANNING
           \<and> currentMessage (fst (submit_begin s message now)) = trim message
           \<and> result (fst (submit_begin s message now)) = None
           \<and> error (fst (submit_begin s message now)) = None"
proof -
  show eq: "submit_begin s message now =
           (safeSetState
              ((abort c now s)\<lparr>controllers := controllers (abort c now s) @ [None],
                                abortControllerRef := Some (length (controllers s))\<rparr>)
              (\<lambda>u. u\<lparr>currentMessage := trim message, status := SCANNING,
                       error := None, result := None\<rparr>),
            Some \<lparr>req_message = trim message, req_apiKey = apiKey s,
                  req_model = selectedModel s, req_controller = length (controllers s),
                  req_history = history s\<rparr>)"
    using assms by (simp add: submit_begin_def Let_def)
  from abort_live [OF assms(5,6), of now]
  show "controllers (fst (submit_begin s message now)) ! c = Some now"
    using assms(5) by (simp add: eq safeSetState_def nth_append)
  show "abortControllerRef (fst (submit_begin s message now)) = Some (length (controllers s))"
    by (simp add: eq safeSetState_def)
  show "controllers (fst (submit_begin s message now)) ! length (controllers s) = None"
    by (simp add: eq safeSetState_def nth_append)
  show "isMounted s \<Longrightarrow> status (fst (submit_begin s message now)) = SCANNING
           \<and> currentMessage (fst (submit_begin s message now)) = trim message
           \<and> result (fst (submit_begin s message now)) = None
           \<and> error (fst (submit_begin s message now)) = None"
    by (simp add: eq safeSetState_def)
qed

lemma try_body_under_signal:
  assumes "signal opts = Some a" and "try_body opts now r = (t, res)"
  shows "res = Inl AbortError \<or> t < a"
proof (cases "aborted_at (signal opts) now")
  case True
  with assms show ?thesis by (simp add: try_body_def fetch_def)
next
  case False
  show ?thesis
  proof (cases "now + fst r < min a (now + timeoutMs opts)")
    case True
    with False assms have "t = now + fst r"
      by (auto simp add: try_body_def fetch_def split: net_reply.splits)
    with True show ?thesis by simp
  next
    case nolt: False
    with False assms show ?thesis by (auto simp add: try_body_def fetch_def split: if_splits)
  qed
qed

lemma catch_block_continue_not_abort: "catch_block e = Continue r \<Longrightarrow> e \<noteq> AbortError"
  by (auto simp add: catch_block_def)

lemma catch_block_throw_cases:
  "catch_block e = Throw e' \<Longrightarrow>
   e = AbortError \<and> e' = AIError ''Request cancelled'' TIMEOUT (Some AbortError) \<or> e \<noteq> AbortError"
  by (cases e) (auto simp add: catch_block_def)

text \<open>
  A call whose signal fires at time \<open>a\<close> and that has not settled before \<open>a\<close> settles with
  ``Request cancelled'': a reply can only arrive before the signal fires.
\<close>

lemma aborted_loop_late_is_cancelled:
  assumes sg: "signal opts = Some a"
    and le: "attempt \<le> maxRetries opts"
    and late: "a \<le> finished (retry_loop net opts len attempt now lastError slept)"
  shows "outcome (retry_loop net opts len attempt now lastError slept) =
           Inl (AIError ''Request cancelled'' TIMEOUT (Some AbortError))"
  using le late
proof (induction "maxRetries opts - attempt" arbitrary: attempt now lastError slept)
  case 0
  then have eq: "attempt = maxRetries opts" and le: "attempt \<le> maxRetries opts" by simp_all
  obtain t res where tb: "try_body opts now (net attempt) = (t, res)"
    by (cases "try_body opts now (net attempt)")
  from try_body_under_signal [OF sg tb] have early: "res = Inl AbortError \<or> t < a" .
  show ?case
  proof (cases res)
    case (Inr v)
    with tb have tb': "try_body opts now (net attempt) = (t, Inr v)" by simp
    from retry_loop_success [where net = net and attempt = attempt, OF le tb'] "0.prems"(2)
      early Inr
    show ?thesis by simp
  next
    case (Inl e)
    with tb have tb': "try_body opts now (net attempt) = (t, Inl e)" by simp
    show ?thesis
    proof (cases "catch_block e")
      case (Throw e')
      from retry_loop_throw [where net = net and attempt = attempt, OF le tb' Throw]
        "0.prems"(2) early Inl catch_block_throw_cases [OF Throw]
      show ?thesis by auto
    next
      case (Continue r)
      from retry_loop_last [where net = net and attempt = attempt, OF eq tb' Continue]
        "0.prems"(2) early Inl catch_block_continue_not_abort [OF Continue]
      show ?thesis by auto
    qed
  qed
next
  case (Suc d)
  then have lt: "attempt < maxRetries opts" and le: "attempt \<le> maxRetries opts" by simp_all
  obtain t res where tb: "try_body opts now (net attempt) = (t, res)"
    by (cases "try_body opts now (net attempt)")
  from try_body_under_signal [OF sg tb] have early: "res = Inl AbortError \<or> t < a" .
  show ?case
  proof (cases res)
    case (Inr v)
    with tb have tb': "try_body opts now (net attempt) = (t, Inr v)" by simp
    from retry_loop_success [where net = net and attempt = attempt, OF le tb'] Suc.prems(2)
      early Inr
    show ?thesis by simp
  next
    case (Inl e)
    with tb have tb': "try_body opts now (net attempt) = (t, Inl e)" by simp
    show ?thesis
    proof (cases "catch_block e")
      case (Throw e')
      from retry_loop_throw [where net = net and attempt = attempt, OF le tb' Throw]
        Suc.prems(2) early Inl catch_block_throw_cases [OF Throw]
      show ?thesis by auto
    next
      case (Continue r)
      have d: "d = maxRetries opts - (attempt + 1)" using Suc.hyps(2) by simp
      have le': "attempt + 1 \<le> maxRetries opts" using lt by simp
      note step = retry_loop_continue [where net = net and attempt = attempt, OF lt tb' Continue]
      from Suc.prems(2) have "a \<le> finished (retry_loop net opts len (attempt + 1)
          (t + backoff_delay attempt) (Some r) (slept @ [backoff_delay attempt]))"
        by (simp add: step)
      from Suc.hyps(1) [OF d le' this] show ?thesis by (simp add: step)
    qed
  qed
qed

lemma superseded_run_late_is_cancelled:
  assumes "req_controller req < length (controllers s)"
    and "controllers s ! req_controller req = Some a"
    and "started < a" and "a \<le> finished (request_run net s req started)"
  shows "outcome (request_run net s req started) =
           Inl (AIError ''Request cancelled'' TIMEOUT (Some AbortError))"
proof -
  let ?o = "default_options\<lparr>model := req_model req, signal := Some a\<rparr>"
  let ?m = "Some (JStr (req_message req))" and ?k = "Some (JStr (req_apiKey req))"
  have run: "request_run net s req started = analyzeMessage net ?m ?k ?o started"
    using assms(1,2) by (simp add: request_run_def)
  have nb: "\<not> blank ?m \<and> \<not> blank ?k"
    using assms(3,4) by (auto simp add: run analyzeMessage_def split: if_splits)
  then have loop: "analyzeMessage net ?m ?k ?o started =
      retry_loop net ?o (str_length ?m) 1 started None []"
    by (simp add: analyzeMessage_def)
  have sg: "signal ?o = Some a" by simp
  have le: "1 \<le> maxRetries ?o" by (simp add: default_options_def)
  from aborted_loop_late_is_cancelled [OF sg le] assms(4) show ?thesis
    by (simp add: run loop)
qed

lemma superseded_result_is_early:
  assumes "req_controller req < length (controllers s)"
    and "controllers s ! req_controller req = Some a"
    and "outcome (request_run net s req started) = Inr r"
  shows "finished (request_run net s req started) < a"
proof (rule ccontr)
  assume "\<not> finished (request_run net s req started) < a"
  then have late: "a \<le> finished (request_run net s req started)" by simp
  let ?o = "default_options\<lparr>model := req_model req, signal := Some a\<rparr>"
  let ?m = "Some (JStr (req_message req))" and ?k = "Some (JStr (req_apiKey req))"
  have run: "request_run net s req started = analyzeMessage net ?m ?k ?o started"
    using assms(1,2) by (simp add: request_run_def)
  have nb: "\<not> blank ?m \<and> \<not> blank ?k"
    using assms(3) by (auto simp add: run analyzeMessage_def split: if_splits)
  then have loop: "analyzeMessage net ?m ?k ?o started =
      retry_loop net ?o (str_length ?m) 1 started None []"
    by (simp add: analyzeMessage_def)
  have sg: "signal ?o = Some a" by simp
  have le: "1 \<le> maxRetries ?o" by (simp add: default_options_def)
  from aborted_loop_late_is_cancelled [OF sg le] late assms(3) show False
    by (simp add: run loop)
qed

lemma settle_error_keeps_result:
  "result (submit_settle s req new_id now (Inl e)) = result s"
  "history (submit_settle s req new_id now (Inl e)) = history s"
  "controllers (submit_settle s req new_id now settled) = controllers s"
  "abortControllerRef (submit_settle s req new_id now settled) = abortControllerRef s"
  by (simp_all add: submit_settle_def safeSetState_def split: sum.split js_error.split)

lemma settle_after_unmount: "\<not> isMounted s \<Longrightarrow> submit_settle s req new_id now settled = s"
  by (simp add: submit_settle_def safeSetState_def split: sum.split js_error.split)

text \<open>
  So a superseded request returns a result only before the submission that aborted it,
  and when it settles at or after that time, it leaves the result and the history alone.
  What it does apply then, whatever the provider, is the error and the status
  \<^verbatim>\<open>error\<close>.
\<close>

lemma superseded_result_never_applied:
  assumes "req_controller req < length (controllers s)"
    and "controllers s ! req_controller req = Some a"
    and "a \<le> finished (request_run net s req started)"
  shows "result (submit_settle s req new_id (finished (request_run net s req started))
                   (outcome (request_run net s req started))) = result s"
    and "history (submit_settle s req new_id (finished (request_run net s req started))
                    (outcome (request_run net s req started))) = history s"
proof -
  obtain e where "outcome (request_run net s req started) = Inl e"
    using superseded_result_is_early [OF assms(1,2)] assms(3)
    by (cases "outcome (request_run net s req started)") fastforce+
  then show "result (submit_settle s req new_id (finished (request_run net s req started))
                   (outcome (request_run net s req started))) = result s"
    and "history (submit_settle s req new_id (finished (request_run net s req started))
                    (outcome (request_run net s req started))) = history s"
    by (simp_all add: settle_error_keeps_result)
qed

lemma superseded_request_sets_error:
  assumes "req_controller req < length (controllers s)"
    and "controllers s ! req_controller req = Some a"
    and "started < a" and "a \<le> finished (request_run net s req started)"
    and "isMounted s"
  shows "submit_settle s req new_id (finished (request_run net s req started))
           (outcome (request_run net s req started)) =
         s\<lparr>error := Some \<lparr>info_type = ''TIMEOUT'',
                           info_message = ''Request timed out. Please try again.''\<rparr>,
           status := ERROR\<rparr>"
  using superseded_run_late_is_cancelled [OF assms(1-4)] assms(5)
  by (simp add: submit_settle_def safeSetState_def)

lemma after_first_eq:
  "after_first = chat0\<lparr>controllers := [None], abortControllerRef := Some 0,
                         currentMessage := ''first draft'', status := SCANNING\<rparr>"
  by (simp add: after_first_def submit_begin_def chat0_def initial_chat_def hasApiKey_def
      trim_def js_space_def safeSetState_def Let_def)

lemma after_second_eq:
  "after_second = chat0\<lparr>controllers := [Some 10, None], abortControllerRef := Some 1,
                          currentMessage := ''second draft'', status := SCANNING\<rparr>"
  by (simp add: after_second_def after_first_eq submit_begin_def chat0_def initial_chat_def
      hasApiKey_def trim_def js_space_def safeSetState_def Let_def abort_def)

lemma superseded_run_eq:
  "superseded_run = \<lparr>outcome = Inl (AIError ''Request cancelled'' TIMEOUT (Some AbortError)),
                      attempts = 1, delays = [], finished = 10\<rparr>"
proof -
  let ?o = "default_options\<lparr>model := DEFAULT_MODEL, signal := Some 10\<rparr>"
  have tb: "try_body ?o 0 (slow_provider 1) = (10, Inl AbortError)"
    by (simp add: try_body_def fetch_def aborted_at_def slow_provider_def always_def
        default_options_def)
  have le: "1 \<le> maxRetries ?o" by (simp add: default_options_def)
  from retry_loop_throw [where net = slow_provider and attempt = 1, OF le tb catch_block_abort]
  show ?thesis
    by (simp add: superseded_run_def request_run_def after_second_eq first_request_def
        analyzeMessage_def blank_def trim_def js_space_def)
qed

text \<open>
  Claim C1, at two submissions in a row, where the code does otherwise. The claim: once
  the newer request has started, nothing of the superseded request is applied, neither
  its result nor its error nor a change of status. The second submission aborts the first
  request at time 10 and leaves the hook scanning with a live controller. The first
  request's \<^verbatim>\<open>analyzeMessage\<close> turns the abort into an \<^verbatim>\<open>AIError\<close> of type \<^verbatim>\<open>TIMEOUT\<close>,
  so the branch of \<^verbatim>\<open>submitMessage\<close> for an \<^verbatim>\<open>AbortError\<close> (``Request was cancelled, not
  an error'') is never taken: the first call sets the error and the status \<^verbatim>\<open>error\<close>
  while the second request is still in flight.
\<close>

theorem stale_outcome_applied:
  "snd (submit_begin chat0 ''first draft'' 0) = Some first_request
   \<and> status after_second = SCANNING
   \<and> abortControllerRef after_second = Some 1
   \<and> controllers after_second = [Some 10, None]
   \<and> outcome superseded_run = Inl (AIError ''Request cancelled'' TIMEOUT (Some AbortError))
   \<and> finished superseded_run = 10
   \<and> status after_stale = ERROR
   \<and> error after_stale =
        Some \<lparr>info_type = ''TIMEOUT'', info_message = ''Request timed out. Please try again.''\<rparr>
   \<and> abortControllerRef after_stale = Some 1
   \<and> controllers after_stale = [Some 10, None]"
proof -
  have a: "snd (submit_begin chat0 ''first draft'' 0) = Some first_request"
    by (simp add: submit_begin_def chat0_def initial_chat_def hasApiKey_def
      trim_def js_space_def safeSetState_def Let_def first_request_def)
  have b: "after_stale = after_second\<lparr>error := Some \<lparr>info_type = ''TIMEOUT'',
      info_message = ''Request timed out. Please try again.''\<rparr>, status := ERROR\<rparr>"
    by (simp add: after_stale_def superseded_run_eq submit_settle_def safeSetState_def
        after_second_eq chat0_def initial_chat_def)
  from a show ?thesis unfolding b after_second_eq superseded_run_eq by simp
qed

text \<open>
  The same two submissions: the status changes under the running request, the result
  and the history do not.
\<close>

theorem stale_outcome_applied_witness:
  "status after_second = SCANNING \<and> status after_stale = ERROR
   \<and> result after_stale = result after_second
   \<and> history after_stale = history after_second"
proof -
  from stale_outcome_applied have "status after_second = SCANNING \<and> status after_stale = ERROR"
    by simp
  moreover have "result after_stale = result after_second"
    and "history after_stale = history after_second"
    by (simp_all add: after_stale_def superseded_run_eq settle_error_keeps_result)
  ultimately show ?thesis by simp
qed

section \<open>Errors that are never retried\<close>

text \<open>
  Claim C2. An attempt that fails with an \<^verbatim>\<open>AIError\<close> of type \<^verbatim>\<open>INVALID_API_KEY\<close> or
  \<^verbatim>\<open>INVALID_RESPONSE\<close> ends the loop at once: the error is thrown as it is, the attempt
  count stays at this attempt and no backoff is slept, however many retries remain. With a
  provider that answers HTTP 401 (or 403), and the reply arriving uncancelled, exactly one
  attempt is made and the call fails with \<^verbatim>\<open>INVALID_API_KEY\<close>.
\<close>

theorem non_retryable_stops:
  "(attempt \<le> maxRetries opts \<and> try_body opts now (net attempt) = (t, Inl (AIError m ty orig))
      \<and> (ty = INVALID_API_KEY \<or> ty = INVALID_RESPONSE)
    \<longrightarrow> retry_loop net opts len attempt now lastError slept =
          \<lparr>outcome = Inl (AIError m ty orig), attempts = attempt, delays = slept, finished = t\<rparr>)
   \<and> (\<not> blank message \<and> \<not> blank key \<and> 1 \<le> maxRetries opts \<and> signal opts = None
        \<and> net 1 = (lat, Responds st body) \<and> (st = 401 \<or> st = 403) \<and> lat < timeoutMs opts
    \<longrightarrow> analyzeMessage net message key opts now =
          \<lparr>outcome = Inl (AIError ''Invalid API key. Please check your OpenRouter API key.''
                             INVALID_API_KEY None),
           attempts = 1, delays = [], finished = now + lat\<rparr>)"
proof (intro conjI impI)
  assume h: "attempt \<le> maxRetries opts \<and> try_body opts now (net attempt) = (t, Inl (AIError m ty orig))
      \<and> (ty = INVALID_API_KEY \<or> ty = INVALID_RESPONSE)"
  then have "catch_block (AIError m ty orig) = Throw (AIError m ty orig)"
    by (simp add: catch_block_non_retryable)
  with h show "retry_loop net opts len attempt now lastError slept =
          \<lparr>outcome = Inl (AIError m ty orig), attempts = attempt, delays = slept, finished = t\<rparr>"
    by (simp add: retry_loop_throw)
next
  assume h: "\<not> blank message \<and> \<not> blank key \<and> 1 \<le> maxRetries opts \<and> signal opts = None
        \<and> net 1 = (lat, Responds st body) \<and> (st = 401 \<or> st = 403) \<and> lat < timeoutMs opts"
  then have tb: "try_body opts now (net 1) =
      (now + lat, Inl (AIError ''Invalid API key. Please check your OpenRouter API key.''
                             INVALID_API_KEY None))"
    by (simp add: try_body_arrives settles_with_def handle_response_401)
  have "retry_loop net opts (str_length message) 1 now None [] =
      \<lparr>outcome = Inl (AIError ''Invalid API key. Please check your OpenRouter API key.''
                             INVALID_API_KEY None),
           attempts = 1, delays = [], finished = now + lat\<rparr>"
    using h tb by (simp add: retry_loop_throw [where t = "now + lat"] catch_block_non_retryable)
  with h show "analyzeMessage net message key opts now =
          \<lparr>outcome = Inl (AIError ''Invalid API key. Please check your OpenRouter API key.''
                             INVALID_API_KEY None),
           attempts = 1, delays = [], finished = now + lat\<rparr>"
    by (simp add: analyzeMessage_def)
qed

lemma no_choices_thrown:
  "handle_response 200 no_choices =
     Inl (AIError ''Invalid response structure from API'' INVALID_RESPONSE None)"
  by code_simp

text \<open>
  Claim C2 at a provider that answers HTTP 401 (one attempt), and at a second attempt
  that meets a response without choices (the loop stops there, at \<^verbatim>\<open>INVALID_RESPONSE\<close>).
\<close>

theorem non_retryable_stops_witness:
  "analyzeMessage (always 5 (Responds 401 [])) (Some (JStr ''hi'')) (Some (JStr ''sk-or-1''))
      default_options 0 =
     \<lparr>outcome = Inl (AIError ''Invalid API key. Please check your OpenRouter API key.''
                        INVALID_API_KEY None),
      attempts = 1, delays = [], finished = 5\<rparr>
   \<and> retry_loop (always 0 (Responds 200 no_choices)) default_options 2 2 1000 None [1000] =
     \<lparr>outcome = Inl (AIError ''Invalid response structure from API'' INVALID_RESPONSE None),
      attempts = 2, delays = [1000], finished = 1000\<rparr>"
proof -
  have sg: "signal default_options = None" and tm: "timeoutMs default_options = 30000"
    and m: "maxRetries default_options = 3"
    by (simp_all add: default_options_def)
  have p1: "\<not> blank (Some (JStr ''hi'')) \<and> \<not> blank (Some (JStr ''sk-or-1''))
      \<and> 1 \<le> maxRetries default_options \<and> signal default_options = None
      \<and> always 5 (Responds 401 []) 1 = (5, Responds 401 []) \<and> ((401::nat) = 401 \<or> (401::nat) = 403)
      \<and> 5 < timeoutMs default_options"
    by (simp add: blank_def trim_def js_space_def sg tm m always_def)
  have tb: "try_body default_options 1000 (always 0 (Responds 200 no_choices) 2) =
      (1000, Inl (AIError ''Invalid response structure from API'' INVALID_RESPONSE None))"
    by (simp add: try_body_arrives sg tm always_def settles_with_def no_choices_thrown)
  have p2: "2 \<le> maxRetries default_options
      \<and> try_body default_options 1000 (always 0 (Responds 200 no_choices) 2) =
          (1000, Inl (AIError ''Invalid response structure from API'' INVALID_RESPONSE None))
      \<and> (INVALID_RESPONSE = INVALID_API_KEY \<or> INVALID_RESPONSE = INVALID_RESPONSE)"
    using tb by (simp add: m)
  from non_retryable_stops [where message = "Some (JStr ''hi'')" and key = "Some (JStr ''sk-or-1'')"
      and opts = default_options and net = "always 5 (Responds 401 [])" and lat = 5
      and st = 401 and body = "[]" and now = 0] p1
  have a: "analyzeMessage (always 5 (Responds 401 [])) (Some (JStr ''hi'')) (Some (JStr ''sk-or-1''))
      default_options 0 =
     \<lparr>outcome = Inl (AIError ''Invalid API key. Please check your OpenRouter API key.''
                        INVALID_API_KEY None),
      attempts = 1, delays = [], finished = 5\<rparr>"
    by simp
  from non_retryable_stops [where attempt = 2 and opts = default_options and now = 1000
      and net = "always 0 (Responds 200 no_choices)" and t = 1000
      and m = "''Invalid response structure from API''" and ty = INVALID_RESPONSE and orig = None
      and len = 2 and lastError = None and slept = "[1000]"] p2
  have b: "retry_loop (always 0 (Responds 200 no_choices)) default_options 2 2 1000 None [1000] =
     \<lparr>outcome = Inl (AIError ''Invalid response structure from API'' INVALID_RESPONSE None),
      attempts = 2, delays = [1000], finished = 1000\<rparr>"
    by simp
  from a b show ?thesis by simp
qed

section \<open>Exhausting the retries\<close>

text \<open>
  The replies of a retryable kind, and the two that are never retried.
\<close>

lemma retryable_replies:
  "retryable (Responds 429 b)"
  "500 \<le> st \<Longrightarrow> retryable (Responds st b)"
  "st < 200 \<or> 300 \<le> st \<Longrightarrow> st \<noteq> 401 \<Longrightarrow> st \<noteq> 403 \<Longrightarrow> retryable (Responds st b)"
  "str_includes m ''fetch'' \<Longrightarrow> retryable (Fails m)"
  by (auto simp add: retryable_def recorded_def settles_with_def handle_response_def
      catch_block_def)

lemma not_retried_replies:
  "recorded (Responds 401 b) = None" "recorded (Responds 403 b) = None"
  by (simp_all add: recorded_def settles_with_def handle_response_def catch_block_def)

text \<open>
  Claim C3. With \<^verbatim>\<open>maxRetries = n\<close>, \<open>n \<ge> 1\<close>, no cancellation and every reply arriving
  in time, if every attempt fails with a retryable kind (\<^verbatim>\<open>RATE_LIMITED\<close>,
  \<^verbatim>\<open>NETWORK_ERROR\<close>, \<^verbatim>\<open>SERVER_ERROR\<close> or \<^verbatim>\<open>UNKNOWN\<close>), the loop makes exactly \<open>n\<close>
  attempts and fails with the error recorded at the last one. The witness is the provider
  that always answers HTTP 500 with \<^verbatim>\<open>maxRetries = 3\<close>: three attempts, then
  \<^verbatim>\<open>SERVER_ERROR\<close>.
\<close>

theorem retries_exhausted:
  assumes "\<not> blank message" and "\<not> blank key"
    and "1 \<le> maxRetries opts" and "signal opts = None"
    and "\<forall>k. 1 \<le> k \<and> k \<le> maxRetries opts \<longrightarrow>
               fst (net k) < timeoutMs opts \<and> retryable (snd (net k))"
  shows "attempts (analyzeMessage net message key opts now) = maxRetries opts
         \<and> recorded (snd (net (maxRetries opts))) \<noteq> None
         \<and> outcome (analyzeMessage net message key opts now) =
             Inl (the (recorded (snd (net (maxRetries opts)))))
         \<and> delays (analyzeMessage net message key opts now) =
             map backoff_delay [1 ..< maxRetries opts]"
proof -
  have rec: "\<forall>k. 1 \<le> k \<and> k \<le> maxRetries opts \<longrightarrow>
               fst (net k) < timeoutMs opts \<and> recorded (snd (net k)) \<noteq> None"
    using assms(5) by (auto simp add: retryable_def split: option.splits)
  from retry_loop_exhaust [OF assms(4) rec assms(3)]
  obtain t where "retry_loop net opts (str_length message) 1 now None [] =
           \<lparr>outcome = Inl (the (recorded (snd (net (maxRetries opts))))),
            attempts = maxRetries opts,
            delays = [] @ map backoff_delay [1 ..< maxRetries opts],
            finished = t\<rparr>" by blast
  moreover have "recorded (snd (net (maxRetries opts))) \<noteq> None"
    using assms(3,5) by (auto simp add: retryable_def split: option.splits)
  ultimately show ?thesis using assms(1,2) by (simp add: analyzeMessage_def)
qed

lemma recorded_500: "recorded (Responds 500 []) = Some (AIError ''OpenRouter server error. Please try again.'' SERVER_ERROR None)"
  by (simp add: recorded_def settles_with_def handle_response_def catch_block_def)

text \<open>
  Claim C3 at the provider that always answers HTTP 500, with \<^verbatim>\<open>maxRetries = 3\<close>.
\<close>

theorem retries_exhausted_witness:
  "attempts (analyzeMessage (always 0 (Responds 500 [])) (Some (JStr ''hi'')) (Some (JStr ''sk-or-1''))
       default_options 0) = 3
   \<and> outcome (analyzeMessage (always 0 (Responds 500 [])) (Some (JStr ''hi'')) (Some (JStr ''sk-or-1''))
       default_options 0) = Inl (AIError ''OpenRouter server error. Please try again.'' SERVER_ERROR None)"
proof -
  have b1: "\<not> blank (Some (JStr ''hi''))" by (simp add: blank_def trim_def js_space_def)
  have b2: "\<not> blank (Some (JStr ''sk-or-1''))" by (simp add: blank_def trim_def js_space_def)
  have m: "1 \<le> maxRetries default_options" by (simp add: default_options_def)
  have s: "signal default_options = None" by (simp add: default_options_def)
  have a: "\<forall>k. 1 \<le> k \<and> k \<le> maxRetries default_options \<longrightarrow>
               fst (always 0 (Responds 500 []) k) < timeoutMs default_options
               \<and> retryable (snd (always 0 (Responds 500 []) k))"
    by (simp add: always_def default_options_def retryable_def recorded_500)
  have r: "recorded (snd (always 0 (Responds 500 []) 3)) =
      Some (AIError ''OpenRouter server error. Please try again.'' SERVER_ERROR None)"
    by (simp add: always_def recorded_500)
  have mr: "maxRetries default_options = 3" by (simp add: default_options_def)
  from retries_exhausted [OF b1 b2 m s a, of 0] show ?thesis
    by (simp add: r mr)
qed

section \<open>The backoff schedule\<close>




section \<open>Extracting the JSON object\<close>

lemma split_first_fence:
  "CHR 0x60 \<notin> set pre \<Longrightarrow> split_first fence (pre @ fence @ r) = Some (pre, r)"
  by (induction pre) (simp_all add: fence_def)

lemma split_first_none: "CHR 0x60 \<notin> set s \<Longrightarrow> split_first fence s = None"
  by (induction s) (simp_all add: fence_def)

lemma starts_with_append: "starts_with p (p @ r)"
  by (induction p) simp_all

lemma not_space_brace: "\<not> js_space (CHR ''{'')"
  by (simp add: js_space_def)

lemma match_code_block_shape:
  assumes pre: "CHR 0x60 \<notin> set pre" and body: "CHR 0x60 \<notin> set body"
    and tag: "tag = [] \<or> tag = ''json''" and ws: "list_all js_space ws"
  shows "match_code_block (pre @ fence @ tag @ ws @ CHR ''{'' # body @ fence @ post) =
           Some (CHR ''{'' # body)"
proof -
  let ?inner = "CHR ''{'' # body @ fence @ post"
  have open_: "split_first fence (pre @ fence @ tag @ ws @ ?inner) = Some (pre, tag @ ws @ ?inner)"
    using pre by (rule split_first_fence)
  have untag: "(if starts_with ''json'' (tag @ ws @ ?inner) then drop 4 (tag @ ws @ ?inner)
                else tag @ ws @ ?inner) = ws @ ?inner"
  proof (cases "tag = []")
    case True
    have "\<not> starts_with ''json'' (ws @ ?inner)"
    proof (cases ws)
      case Nil
      then show ?thesis by simp
    next
      case (Cons w ws')
      with ws have "js_space w" by simp
      then have "w \<noteq> CHR ''j''" by (auto simp add: js_space_def)
      with Cons show ?thesis by simp
    qed
    with True show ?thesis by simp
  next
    case False
    with tag have t: "tag = ''json''" by simp
    have "starts_with ''json'' (''json'' @ ws @ ?inner)" by (rule starts_with_append)
    with t show ?thesis by simp
  qed
  have skip: "dropWhile js_space (ws @ ?inner) = ?inner"
    using ws by (simp add: dropWhile_append2 list_all_iff not_space_brace)
  have close: "split_first fence ((CHR ''{'' # body) @ fence @ post) = Some (CHR ''{'' # body, post)"
    using body by (intro split_first_fence) simp
  show ?thesis
    unfolding match_code_block_def open_ by (simp only: option.case prod.case Let_def untag skip)
      (use close in simp)
qed

lemma match_code_block_none: "CHR 0x60 \<notin> set s \<Longrightarrow> match_code_block s = None"
  by (simp add: match_code_block_def split_first_none)

lemma match_object_shape:
  assumes "CHR ''{'' \<notin> set pre" and "CHR ''}'' \<notin> set post"
  shows "match_object (pre @ CHR ''{'' # mid @ CHR ''}'' # post) = Some (CHR ''{'' # mid @ [CHR ''}''])"
proof -
  have a: "dropWhile (\<lambda>c. c \<noteq> CHR ''{'') (pre @ CHR ''{'' # mid @ CHR ''}'' # post) =
      CHR ''{'' # mid @ CHR ''}'' # post"
    using assms(1) by (subst dropWhile_append2) auto
  have b: "rev (dropWhile (\<lambda>c. c \<noteq> CHR ''}'') (rev (mid @ CHR ''}'' # post))) = mid @ [CHR ''}'']"
    using assms(2) by (simp, subst dropWhile_append2) auto
  show ?thesis
    unfolding match_object_def a list.case b by (cases mid) simp_all
qed

lemma parseAIResponse_string:
  "parseAIResponse (Some (JStr content)) =
     (case JSON_parse content of
        Some v \<Rightarrow> Inr v
      | None \<Rightarrow>
          (case Option.bind (match_code_block content) (\<lambda>captured. JSON_parse (trim captured)) of
             Some v \<Rightarrow> Inr v
           | None \<Rightarrow>
               (case Option.bind (match_object content) JSON_parse of
                  Some v \<Rightarrow> Inr v
                | None \<Rightarrow> Inl could_not_parse)))"
  by (simp add: parseAIResponse_def try_parse_def to_string_def split: option.split)

text \<open>
  Claim C5, as amended. On a string, \<^verbatim>\<open>parseAIResponse\<close> returns the first success among
  the direct parse, the parse of the trimmed body of the first fenced block, and the parse
  of the span from the first opening brace to the last closing brace; it throws
  \<^verbatim>\<open>INVALID_RESPONSE\<close> exactly when all three fail. It recovers the embedded object from
  the raw object text; from a fenced block, tagged \<^verbatim>\<open>json\<close> or not, when the whole text is
  not JSON itself and neither the text before the fence nor the fenced text holds a
  backquote; and from surrounding prose when the whole text is not JSON itself, holds no
  backquote, and the prose holds no opening brace before the object and no closing brace
  after it.
\<close>

theorem extractor_first_success:
  "parseAIResponse (Some (JStr content)) =
     (case JSON_parse content of
        Some v \<Rightarrow> Inr v
      | None \<Rightarrow>
          (case Option.bind (match_code_block content) (\<lambda>captured. JSON_parse (trim captured)) of
             Some v \<Rightarrow> Inr v
           | None \<Rightarrow>
               (case Option.bind (match_object content) JSON_parse of
                  Some v \<Rightarrow> Inr v
                | None \<Rightarrow> Inl could_not_parse)))
   \<and> (JSON_parse content = Some v \<longrightarrow> parseAIResponse (Some (JStr content)) = Inr v)
   \<and> (content = pre @ fence @ tag @ ws @ CHR ''{'' # body @ fence @ post
        \<and> CHR 0x60 \<notin> set pre \<and> CHR 0x60 \<notin> set body \<and> (tag = [] \<or> tag = ''json'')
        \<and> list_all js_space ws
        \<and> JSON_parse content = None \<and> JSON_parse (trim (CHR ''{'' # body)) = Some v
      \<longrightarrow> parseAIResponse (Some (JStr content)) = Inr v)
   \<and> (content = pre @ CHR ''{'' # mid @ CHR ''}'' # post
        \<and> CHR ''{'' \<notin> set pre \<and> CHR ''}'' \<notin> set post \<and> CHR 0x60 \<notin> set content
        \<and> JSON_parse content = None \<and> JSON_parse (CHR ''{'' # mid @ [CHR ''}'']) = Some v
      \<longrightarrow> parseAIResponse (Some (JStr content)) = Inr v)
   \<and> (parseAIResponse (Some (JStr content)) = Inl e
      \<longleftrightarrow> e = could_not_parse \<and> JSON_parse content = None
          \<and> Option.bind (match_code_block content) (\<lambda>captured. JSON_parse (trim captured)) = None
          \<and> Option.bind (match_object content) JSON_parse = None)"
proof (intro conjI impI)
  show "parseAIResponse (Some (JStr content)) =
     (case JSON_parse content of
        Some v \<Rightarrow> Inr v
      | None \<Rightarrow>
          (case Option.bind (match_code_block content) (\<lambda>captured. JSON_parse (trim captured)) of
             Some v \<Rightarrow> Inr v
           | None \<Rightarrow>
               (case Option.bind (match_object content) JSON_parse of
                  Some v \<Rightarrow> Inr v
                | None \<Rightarrow> Inl could_not_parse)))"
    by (rule parseAIResponse_string)
next
  assume "JSON_parse content = Some v"
  then show "parseAIResponse (Some (JStr content)) = Inr v"
    by (simp add: parseAIResponse_string)
next
  assume h: "content = pre @ fence @ tag @ ws @ CHR ''{'' # body @ fence @ post
        \<and> CHR 0x60 \<notin> set pre \<and> CHR 0x60 \<notin> set body \<and> (tag = [] \<or> tag = ''json'')
        \<and> list_all js_space ws
        \<and> JSON_parse content = None \<and> JSON_parse (trim (CHR ''{'' # body)) = Some v"
  then have jp: "JSON_parse content = None" and jb: "JSON_parse (trim (CHR ''{'' # body)) = Some v"
    by blast+
  from h have mc: "match_code_block content = Some (CHR ''{'' # body)"
    by (simp add: match_code_block_shape)
  show "parseAIResponse (Some (JStr content)) = Inr v"
    by (simp add: parseAIResponse_string jp mc jb)
next
  assume h: "content = pre @ CHR ''{'' # mid @ CHR ''}'' # post
        \<and> CHR ''{'' \<notin> set pre \<and> CHR ''}'' \<notin> set post \<and> CHR 0x60 \<notin> set content
        \<and> JSON_parse content = None \<and> JSON_parse (CHR ''{'' # mid @ [CHR ''}'']) = Some v"
  then have jp: "JSON_parse content = None" and jb: "JSON_parse (CHR ''{'' # mid @ [CHR ''}'']) = Some v"
    by blast+
  from h have mo: "match_object content = Some (CHR ''{'' # mid @ [CHR ''}''])"
    by (simp add: match_object_shape)
  from h have "CHR 0x60 \<notin> set content" by blast
  then have mc: "match_code_block content = None"
    by (rule match_code_block_none)
  show "parseAIResponse (Some (JStr content)) = Inr v"
    by (simp add: parseAIResponse_string jp mc mo jb)
next
  show "parseAIResponse (Some (JStr content)) = Inl e
      \<longleftrightarrow> e = could_not_parse \<and> JSON_parse content = None
          \<and> Option.bind (match_code_block content) (\<lambda>captured. JSON_parse (trim captured)) = None
          \<and> Option.bind (match_object content) JSON_parse = None"
    by (auto simp add: parseAIResponse_string split: option.splits)
qed

text \<open>
  The amended claim at a raw object, at the same object in a fenced block within prose,
  at the object within prose, and at a text without any JSON.
\<close>

theorem extractor_first_success_witness:
  "parseAIResponse (Some (JStr tiny_object)) = Inr (JObj [(''a'', JNum ''1'')])
   \<and> parseAIResponse (Some (JStr fenced_answer)) = Inr (JObj [(''a'', JNum ''1'')])
   \<and> parseAIResponse (Some (JStr answer_in_prose)) = Inr (JObj [(''a'', JNum ''1'')])
   \<and> parseAIResponse (Some (JStr ''no json here'')) = Inl could_not_parse"
proof -
  let ?v = "JObj [(''a'', JNum ''1'')]"
  have p: "JSON_parse tiny_object = Some ?v" by code_simp
  have raw: "parseAIResponse (Some (JStr tiny_object)) = Inr ?v"
    using extractor_first_success [where content = tiny_object and v = "?v"] p by blast
  have f1: "fenced_answer = ''Here you go: '' @ fence @ ''json'' @ [CHR 0x0A]
      @ CHR ''{'' # (tl tiny_object @ [CHR 0x0A]) @ fence @ '' Hope it helps.''"
    by (simp add: fenced_answer_def tiny_object_def)
  have f2: "CHR 0x60 \<notin> set ''Here you go: '' \<and> CHR 0x60 \<notin> set (tl tiny_object @ [CHR 0x0A])
      \<and> (''json'' = [] \<or> ''json'' = ''json'') \<and> list_all js_space [CHR 0x0A]"
    by (simp add: tiny_object_def js_space_def)
  have f3: "JSON_parse fenced_answer = None" by code_simp
  have f4: "JSON_parse (trim (CHR ''{'' # (tl tiny_object @ [CHR 0x0A]))) = Some ?v" by code_simp
  have fenced: "parseAIResponse (Some (JStr fenced_answer)) = Inr ?v"
    using extractor_first_success [where content = fenced_answer and v = "?v"
        and pre = "''Here you go: ''" and tag = "''json''" and ws = "[CHR 0x0A]"
        and body = "tl tiny_object @ [CHR 0x0A]" and post = "'' Hope it helps.''"]
      f1 f2 f3 f4 by blast
  have q1: "answer_in_prose = ''Sure. '' @ CHR ''{'' # ''\"a\":1'' @ CHR ''}'' # '' Hope it helps.''"
    by (simp add: answer_in_prose_def)
  have q2: "CHR ''{'' \<notin> set ''Sure. '' \<and> CHR ''}'' \<notin> set '' Hope it helps.''
      \<and> CHR 0x60 \<notin> set answer_in_prose"
    by (simp add: answer_in_prose_def)
  have q3: "JSON_parse answer_in_prose = None" by code_simp
  have q4: "JSON_parse (CHR ''{'' # ''\"a\":1'' @ [CHR ''}'']) = Some ?v" by code_simp
  have prose: "parseAIResponse (Some (JStr answer_in_prose)) = Inr ?v"
    using extractor_first_success [where content = answer_in_prose and v = "?v"
        and pre = "''Sure. ''" and mid = "''\"a\":1''" and post = "'' Hope it helps.''"]
      q1 q2 q3 q4 by blast
  have n: "could_not_parse = could_not_parse \<and> JSON_parse ''no json here'' = None
      \<and> Option.bind (match_code_block ''no json here'') (\<lambda>captured. JSON_parse (trim captured)) = None
      \<and> Option.bind (match_object ''no json here'') JSON_parse = None"
    by code_simp
  have none: "parseAIResponse (Some (JStr ''no json here'')) = Inl could_not_parse"
    using extractor_first_success [where content = "''no json here''" and e = could_not_parse] n
    by blast
  from raw fenced prose none show ?thesis by simp
qed

text \<open>
  Claim C5 as stated (every output that embeds a JSON object in prose is recovered)
  fails: with a brace of its own in the prose before the object, the widest span is not
  JSON and the call throws \<^verbatim>\<open>INVALID_RESPONSE\<close>.
\<close>

theorem braces_in_prose_fail:
  "braces_in_prose = ''Use {x}: '' @ tiny_object
   \<and> JSON_parse tiny_object = Some (JObj [(''a'', JNum ''1'')])
   \<and> parseAIResponse (Some (JStr braces_in_prose)) =
       Inl (AIError ''Could not parse AI response as JSON'' INVALID_RESPONSE None)"
  by code_simp

section \<open>A response without content\<close>

lemma content_missing_thrown:
  "handle_response 200 content_missing =
     Inl (TypeError ''Cannot read properties of undefined (reading match)'')"
  by code_simp

text \<open>
  Claim C6, at a response the code handles otherwise. The claim: a success response
  without \<^verbatim>\<open>choices[0].message.content\<close> fails with \<^verbatim>\<open>INVALID_RESPONSE\<close> and is not retried.
  The code checks \<^verbatim>\<open>choices\<close>, \<^verbatim>\<open>choices[0]\<close> and \<^verbatim>\<open>message\<close> but not \<^verbatim>\<open>content\<close>: on a
  200 response whose message has no content, \<^verbatim>\<open>parseAIResponse(undefined)\<close> throws a
  \<^verbatim>\<open>TypeError\<close>, which is no \<^verbatim>\<open>AIError\<close>, so all three attempts are made, with both
  backoff delays, and the \<^verbatim>\<open>TypeError\<close> is what the call fails with.
\<close>

theorem missing_content_is_retried:
  "handle_response 200 content_missing =
     Inl (TypeError ''Cannot read properties of undefined (reading match)'')
   \<and> attempts (analyzeMessage (always 0 (Responds 200 content_missing)) (Some (JStr ''hi''))
       (Some (JStr ''sk-or-1'')) default_options 0) = 3
   \<and> delays (analyzeMessage (always 0 (Responds 200 content_missing)) (Some (JStr ''hi''))
       (Some (JStr ''sk-or-1'')) default_options 0) = [1000, 2000]
   \<and> outcome (analyzeMessage (always 0 (Responds 200 content_missing)) (Some (JStr ''hi''))
       (Some (JStr ''sk-or-1'')) default_options 0) =
     Inl (TypeError ''Cannot read properties of undefined (reading match)'')"
proof -
  let ?net = "always 0 (Responds 200 content_missing)"
  have rc: "recorded (Responds 200 content_missing) =
      Some (TypeError ''Cannot read properties of undefined (reading match)'')"
    by (simp add: recorded_def settles_with_def content_missing_thrown catch_block_def
        str_includes_def)
  have sg: "signal default_options = None" and m: "maxRetries default_options = 3"
    by (simp_all add: default_options_def)
  have all: "\<forall>k. 1 \<le> k \<and> k \<le> maxRetries default_options \<longrightarrow>
      fst (?net k) < timeoutMs default_options \<and> recorded (snd (?net k)) \<noteq> None"
    by (simp add: always_def rc default_options_def)
  from retry_loop_exhaust [OF sg all, of "str_length (Some (JStr ''hi''))" 0 None "[]"]
  obtain t where "retry_loop ?net default_options (str_length (Some (JStr ''hi''))) 1 0 None [] =
      \<lparr>outcome = Inl (the (recorded (snd (?net (maxRetries default_options))))),
       attempts = maxRetries default_options,
       delays = [] @ map backoff_delay [1 ..< maxRetries default_options],
       finished = t\<rparr>"
    by (auto simp add: m)
  moreover have "map backoff_delay [1 ..< 3] = [1000, 2000]"
    by (simp add: backoff_delay_def upt_conv_Cons)
  moreover have "recorded (snd (?net 3)) =
      Some (TypeError ''Cannot read properties of undefined (reading match)'')"
    by (simp add: always_def rc)
  ultimately show ?thesis
    by (simp add: analyzeMessage_def blank_def trim_def js_space_def m content_missing_thrown)
qed

section \<open>Cancellation during the backoff\<close>

text \<open>
  Claim C7, as amended. \<^verbatim>\<open>sleep\<close> takes no signal and always lasts the whole delay. When
  the caller's signal fires while the loop sleeps after a failed attempt, the loop still
  sleeps to the end of the computed delay; the cancellation is seen by the next attempt,
  whose \<^verbatim>\<open>fetch\<close> is rejected at once, and the call then fails with
  \<^verbatim>\<open>TIMEOUT\<close> ``Request cancelled''.
\<close>

theorem backoff_sleeps_in_full:
  "sleep ms now = now + ms
   \<and> (attempt < maxRetries opts \<and> try_body opts now (net attempt) = (t, Inl e)
        \<and> catch_block e = Continue r \<and> signal opts = Some a
        \<and> t < a \<and> a \<le> t + backoff_delay attempt
      \<longrightarrow> retry_loop net opts len attempt now lastError slept =
            \<lparr>outcome = Inl (AIError ''Request cancelled'' TIMEOUT (Some AbortError)),
             attempts = attempt + 1, delays = slept @ [backoff_delay attempt],
             finished = t + backoff_delay attempt\<rparr>)"
proof (intro conjI impI)
  show "sleep ms now = now + ms" by (simp add: sleep_def)
next
  assume h: "attempt < maxRetries opts \<and> try_body opts now (net attempt) = (t, Inl e)
        \<and> catch_block e = Continue r \<and> signal opts = Some a
        \<and> t < a \<and> a \<le> t + backoff_delay attempt"
  then have lt: "attempt < maxRetries opts" and tb: "try_body opts now (net attempt) = (t, Inl e)"
    and c: "catch_block e = Continue r" and sg: "signal opts = Some a"
    and late: "a \<le> t + backoff_delay attempt" by simp_all
  have le: "attempt + 1 \<le> maxRetries opts" using lt by simp
  have tb2: "try_body opts (t + backoff_delay attempt) (net (attempt + 1)) =
      (t + backoff_delay attempt, Inl AbortError)"
    using sg late by (rule try_body_aborted)
  have "retry_loop net opts len attempt now lastError slept =
      retry_loop net opts len (attempt + 1) (t + backoff_delay attempt) (Some r)
        (slept @ [backoff_delay attempt])"
    using retry_loop_continue [where net = net and attempt = attempt, OF lt tb c] .
  also have "\<dots> = \<lparr>outcome = Inl (AIError ''Request cancelled'' TIMEOUT (Some AbortError)),
             attempts = attempt + 1, delays = slept @ [backoff_delay attempt],
             finished = t + backoff_delay attempt\<rparr>"
    using retry_loop_throw [where net = net and attempt = "attempt + 1", OF le tb2 catch_block_abort] .
  finally show "retry_loop net opts len attempt now lastError slept =
            \<lparr>outcome = Inl (AIError ''Request cancelled'' TIMEOUT (Some AbortError)),
             attempts = attempt + 1, delays = slept @ [backoff_delay attempt],
             finished = t + backoff_delay attempt\<rparr>" .
qed

lemma try_body_500:
  "try_body (default_options\<lparr>signal := Some 10\<rparr>) 0 (always 0 (Responds 500 []) 1) =
     (0, Inl (AIError ''OpenRouter server error. Please try again.'' SERVER_ERROR None))"
  by (simp add: try_body_def fetch_def aborted_at_def always_def default_options_def
      handle_response_def)

lemma catch_block_500:
  "catch_block (AIError ''OpenRouter server error. Please try again.'' SERVER_ERROR None) =
     Continue (AIError ''OpenRouter server error. Please try again.'' SERVER_ERROR None)"
  by (simp add: catch_block_def)

text \<open>
  The amended claim C7 at a signal that fires 10 ms into the first backoff.
\<close>

theorem backoff_sleeps_in_full_witness:
  "retry_loop (always 0 (Responds 500 [])) (default_options\<lparr>signal := Some 10\<rparr>) 2 1 0 None [] =
     \<lparr>outcome = Inl (AIError ''Request cancelled'' TIMEOUT (Some AbortError)),
      attempts = 2, delays = [1000], finished = 1000\<rparr>"
proof -
  have "1 < maxRetries (default_options\<lparr>signal := Some 10\<rparr>)
      \<and> try_body (default_options\<lparr>signal := Some 10\<rparr>) 0 (always 0 (Responds 500 []) 1) =
          (0, Inl (AIError ''OpenRouter server error. Please try again.'' SERVER_ERROR None))
      \<and> catch_block (AIError ''OpenRouter server error. Please try again.'' SERVER_ERROR None) =
          Continue (AIError ''OpenRouter server error. Please try again.'' SERVER_ERROR None)
      \<and> signal (default_options\<lparr>signal := Some 10\<rparr>) = Some 10
      \<and> (0::nat) < 10 \<and> 10 \<le> 0 + backoff_delay 1"
  proof -
    have p1: "1 < maxRetries (default_options\<lparr>signal := Some 10\<rparr>)"
      by (simp add: default_options_def)
    have p4: "signal (default_options\<lparr>signal := Some 10\<rparr>) = Some 10" by simp
    have p5: "(0::nat) < 10 \<and> 10 \<le> 0 + backoff_delay 1" by (simp add: backoff_delay_def)
    from p1 try_body_500 catch_block_500 p4 p5 show ?thesis by blast
  qed
  with backoff_sleeps_in_full [where attempt = 1 and opts = "default_options\<lparr>signal := Some 10\<rparr>"
      and now = 0 and net = "always 0 (Responds 500 [])" and t = 0
      and e = "AIError ''OpenRouter server error. Please try again.'' SERVER_ERROR None"
      and r = "AIError ''OpenRouter server error. Please try again.'' SERVER_ERROR None"
      and a = 10 and len = 2 and lastError = None and slept = "[]"]
  show ?thesis by (simp add: backoff_delay_def)
qed

text \<open>
  Claim C7 as stated (the wait is cut short when the signal fires) fails: the signal
  fires 10 ms into the 1000 ms backoff after a first HTTP 500, and the call settles at
  1000 ms, having slept the whole delay.
\<close>

theorem backoff_not_cut_short:
  "finished (analyzeMessage (always 0 (Responds 500 [])) (Some (JStr ''hi'')) (Some (JStr ''sk-or-1''))
      (default_options\<lparr>signal := Some 10\<rparr>) 0) = 1000
   \<and> delays (analyzeMessage (always 0 (Responds 500 [])) (Some (JStr ''hi'')) (Some (JStr ''sk-or-1''))
      (default_options\<lparr>signal := Some 10\<rparr>) 0) = [1000]
   \<and> outcome (analyzeMessage (always 0 (Responds 500 [])) (Some (JStr ''hi'')) (Some (JStr ''sk-or-1''))
      (default_options\<lparr>signal := Some 10\<rparr>) 0) =
        Inl (AIError ''Request cancelled'' TIMEOUT (Some AbortError))"
proof -
  have lt: "1 < maxRetries (default_options\<lparr>signal := Some 10\<rparr>)"
    by (simp add: default_options_def)
  have le: "1 + 1 \<le> maxRetries (default_options\<lparr>signal := Some 10\<rparr>)"
    by (simp add: default_options_def)
  have tb2: "try_body (default_options\<lparr>signal := Some 10\<rparr>) (0 + backoff_delay 1)
      (always 0 (Responds 500 []) (1 + 1)) = (0 + backoff_delay 1, Inl AbortError)"
    by (rule try_body_aborted [where a = 10]) (simp_all add: backoff_delay_def)
  have "retry_loop (always 0 (Responds 500 [])) (default_options\<lparr>signal := Some 10\<rparr>)
          (str_length (Some (JStr ''hi''))) 1 0 None [] =
        retry_loop (always 0 (Responds 500 [])) (default_options\<lparr>signal := Some 10\<rparr>)
          (str_length (Some (JStr ''hi''))) (1 + 1) (0 + backoff_delay 1)
          (Some (AIError ''OpenRouter server error. Please try again.'' SERVER_ERROR None))
          ([] @ [backoff_delay 1])"
    using retry_loop_continue [where net = "always 0 (Responds 500 [])" and attempt = 1,
        OF lt try_body_500 catch_block_500] .
  also have "\<dots> = \<lparr>outcome = Inl (AIError ''Request cancelled'' TIMEOUT (Some AbortError)),
      attempts = 1 + 1, delays = [] @ [backoff_delay 1], finished = 0 + backoff_delay 1\<rparr>"
    using retry_loop_throw [where net = "always 0 (Responds 500 [])" and attempt = "1 + 1",
        OF le tb2 catch_block_abort] .
  finally show ?thesis
    by (simp add: analyzeMessage_def blank_def trim_def js_space_def backoff_delay_def)
qed

section \<open>The validator\<close>

text \<open>
  Claim C8, at a candidate on which the code throws. The claim: the validator returns a
  string for a verdict outside the enumeration and never throws. For the model output
  \<^verbatim>\<open>{"verdict":{"toString":0},...}\<close> the verdict is not in the list, and building the
  message \<^verbatim>\<open>`Invalid verdict: ${data.verdict}`\<close> converts the verdict to a string; the
  object's own \<^verbatim>\<open>toString\<close> is not callable, so the conversion throws a \<^verbatim>\<open>TypeError\<close>
  out of \<^verbatim>\<open>validateAnalysisResponse\<close>.
\<close>

theorem validator_throws:
  "JSON_parse unprintable_verdict = Some unprintable_parsed
   \<and> validateAnalysisResponse (Some unprintable_parsed) =
       Inl (TypeError ''Cannot convert object to primitive value'')"
  by code_simp

text \<open>
  The same model output through \<^verbatim>\<open>parseAIResponse\<close> and the validator.
\<close>

theorem validator_throws_witness:
  "bindE (parseAIResponse (Some (JStr unprintable_verdict)))
      (\<lambda>parsed. validateAnalysisResponse (Some parsed)) =
     Inl (TypeError ''Cannot convert object to primitive value'')"
proof -
  from validator_throws have p: "JSON_parse unprintable_verdict = Some unprintable_parsed"
    and v: "validateAnalysisResponse (Some unprintable_parsed) =
       Inl (TypeError ''Cannot convert object to primitive value'')"
    by simp_all
  from p have "parseAIResponse (Some (JStr unprintable_verdict)) = Inr unprintable_parsed"
    by (simp add: parseAIResponse_def try_parse_def to_string_def)
  with v show ?thesis by (simp add: bindE_def)
qed

lemma js_get_truthy: "truthy d \<Longrightarrow> \<exists>v. js_get d k = Inr v"
proof (cases d)
  case None
  then show "truthy d \<Longrightarrow> ?thesis" by simp
next
  case (Some x)
  then show "truthy d \<Longrightarrow> ?thesis" by (cases x) simp_all
qed

lemma check_rewrites_no_throw:
  "truthy rw \<Longrightarrow> check_rewrites rw keys \<noteq> Inl e"
proof (induction keys)
  case Nil
  then show ?case by simp
next
  case (Cons k ks)
  from Cons.prems obtain v where "js_get rw k = Inr v"
    using js_get_truthy by blast
  with Cons show ?case by (simp add: bindE_def)
qed

text \<open>
  Apart from that conversion the validator does what claim C8 says: it throws only
  while printing a verdict that is outside the enumeration, it runs its checks in order,
  and it accepts a conforming candidate.
\<close>

lemma validator_only_throw:
  assumes "validateAnalysisResponse data = Inl e"
  shows "\<exists>verdict. js_get data ''verdict'' = Inr verdict \<and> \<not> includes_verdict verdict
           \<and> to_string verdict = Inl e"
proof -
  from assms have t: "truthy data" and o: "typeof_object data"
    by (auto simp add: validateAnalysisResponse_def split: if_splits)
  from t obtain verdict risks rw where g: "js_get data ''verdict'' = Inr verdict"
    "js_get data ''risks'' = Inr risks" "js_get data ''rewrites'' = Inr rw"
    using js_get_truthy by meson
  show ?thesis
  proof (cases "includes_verdict verdict")
    case False
    with assms t o g show ?thesis
      by (cases "to_string verdict") (simp_all add: validateAnalysisResponse_def bindE_def)
  next
    case True
    with assms t o g check_rewrites_no_throw [of rw requiredRewrites e] show ?thesis
      by (auto simp add: validateAnalysisResponse_def bindE_def split: if_splits)
  qed
qed

lemma validator_checks_in_order:
  "\<not> truthy data \<or> \<not> typeof_object data \<Longrightarrow>
     validateAnalysisResponse data = Inr (Some ''Response is not an object'')"
  "truthy data \<Longrightarrow> typeof_object data \<Longrightarrow> js_get data ''verdict'' = Inr verdict \<Longrightarrow>
     \<not> includes_verdict verdict \<Longrightarrow> to_string verdict = Inr shown \<Longrightarrow>
     validateAnalysisResponse data = Inr (Some (''Invalid verdict: '' @ shown))"
  "truthy data \<Longrightarrow> typeof_object data \<Longrightarrow> js_get data ''verdict'' = Inr verdict \<Longrightarrow>
     includes_verdict verdict \<Longrightarrow> js_get data ''risks'' = Inr risks \<Longrightarrow> \<not> is_array risks \<Longrightarrow>
     validateAnalysisResponse data = Inr (Some ''Missing or invalid risks array'')"
  "truthy data \<Longrightarrow> typeof_object data \<Longrightarrow> js_get data ''verdict'' = Inr verdict \<Longrightarrow>
     includes_verdict verdict \<Longrightarrow> js_get data ''risks'' = Inr risks \<Longrightarrow> is_array risks \<Longrightarrow>
     js_get data ''rewrites'' = Inr rw \<Longrightarrow> \<not> truthy rw \<or> \<not> typeof_object rw \<Longrightarrow>
     validateAnalysisResponse data = Inr (Some ''Missing or invalid rewrites object'')"
  "truthy data \<Longrightarrow> typeof_object data \<Longrightarrow> js_get data ''verdict'' = Inr verdict \<Longrightarrow>
     includes_verdict verdict \<Longrightarrow> js_get data ''risks'' = Inr risks \<Longrightarrow> is_array risks \<Longrightarrow>
     js_get data ''rewrites'' = Inr rw \<Longrightarrow> truthy rw \<Longrightarrow> typeof_object rw \<Longrightarrow>
     validateAnalysisResponse data = check_rewrites rw requiredRewrites"
  by (simp_all add: validateAnalysisResponse_def bindE_def)

lemma validator_accepts:
  assumes "own_prop kvs ''verdict'' = Some (JStr verdict)" and "verdict \<in> set validVerdicts"
    and "own_prop kvs ''risks'' = Some (JArr risks)"
    and "own_prop kvs ''rewrites'' = Some (JObj rw)"
    and "own_prop rw ''short'' = Some (JStr a)"
    and "own_prop rw ''warm'' = Some (JStr b)"
    and "own_prop rw ''confident'' = Some (JStr c)"
  shows "validateAnalysisResponse (Some (JObj kvs)) = Inr None"
  using assms by (simp add: validateAnalysisResponse_def bindE_def requiredRewrites_def)

section \<open>Numbers at the ends of the range, characters above the 8-bit range\<close>

text \<open>
  Numbers at the ends of the double range, and an escape above \<^verbatim>\<open>\u00FF\<close>: a literal
  that rounds to zero is false, so a message that is such a number counts as missing; a
  literal that overflows prints as \<^verbatim>\<open>Infinity\<close>, which is not JSON, so a content that is
  such a number fails the direct parse and has no \<^verbatim>\<open>match\<close>.
\<close>

lemma number_that_rounds_to_zero:
  "num_is_zero ''1e-400'' \<and> num_is_zero ''-0.0'' \<and> \<not> num_is_zero ''5e-324''
   \<and> \<not> truthy (Some (JNum ''1e-400''))"
  by code_simp

lemma number_that_overflows:
  "num_is_infinite ''1e400'' \<and> \<not> num_is_infinite ''1.7976931348623157e308''
   \<and> js_to_string (JNum ''1e400'') = Inr ''Infinity''
   \<and> js_to_string (JNum ''-1e400'') = Inr ''-Infinity''
   \<and> js_to_string (JNum ''25'') = Inr ''25''"
  by code_simp

lemma escape_above_latin1:
  "JSON_parse ([CHR 0x22, CHR 0x5C] @ ''u0100'' @ [CHR 0x5C] @ ''u2028'' @ [CHR 0x5C] @ ''u0041''
                 @ [CHR 0x22]) =
     Some (JStr [CHR 0xFF, CHR 0xA0, CHR ''A''])"
  by code_simp

lemma tiny_message_is_no_message:
  \<open>handle_response 200 ''{"choices":[{"message":1e-400}]}'' =
     Inl (AIError ''Invalid response structure from API'' INVALID_RESPONSE None)\<close>
  by code_simp

lemma infinite_content_has_no_match:
  \<open>handle_response 200 ''{"choices":[{"message":{"content":1e400}}]}'' =
     Inl (TypeError ''content.match is not a function'')\<close>
  by code_simp

section \<open>The history cap\<close>

lemma slice_last_length: "length (slice_last n xs) \<le> n"
  by (simp add: slice_last_def)

lemma add_to_history_Some: "add_to_history (Some xs) e = drop (length xs - 49) xs @ [e]"
  by (simp add: add_to_history_def slice_last_def Suc_diff_le)

text \<open>
  Claim C9. Appending an entry to any stored history gives at most 50 entries, the new
  entry last: a history shorter than 50 keeps everything, a longer one keeps its 49 most
  recent entries before the new one, so the 51st entry drops the oldest. A successful
  analysis that settles while the hook is mounted stores exactly that list.
\<close>

theorem history_capped:
  "length (add_to_history prev e) \<le> 50
   \<and> last (add_to_history prev e) = e
   \<and> (\<forall>xs. prev = Some xs \<longrightarrow> length xs < 50 \<longrightarrow> add_to_history prev e = xs @ [e])
   \<and> (\<forall>xs. prev = Some xs \<longrightarrow> 50 \<le> length xs \<longrightarrow>
         add_to_history prev e = drop (length xs - 49) xs @ [e])
   \<and> (\<forall>x xs. prev = Some (x # xs) \<longrightarrow> length xs = 49 \<longrightarrow> add_to_history prev e = xs @ [e])
   \<and> (isMounted s \<longrightarrow>
         history (submit_settle s req new_id now (Inr a)) =
           Some (add_to_history (req_history req)
                   \<lparr>entry_id = new_id, entry_timestamp = now,
                    entry_originalMessage = req_message req, entry_result = a,
                    entry_model = req_model req\<rparr>))"
proof -
  have len: "length (add_to_history prev e) \<le> 50"
    by (simp add: add_to_history_def slice_last_def split: option.split)
  have lst: "last (add_to_history prev e) = e"
    by (cases prev) (simp_all add: add_to_history_def slice_last_def)
  have small: "\<forall>xs. prev = Some xs \<longrightarrow> length xs < 50 \<longrightarrow> add_to_history prev e = xs @ [e]"
    by (simp add: add_to_history_Some)
  have big: "\<forall>xs. prev = Some xs \<longrightarrow> 50 \<le> length xs \<longrightarrow>
         add_to_history prev e = drop (length xs - 49) xs @ [e]"
    by (simp add: add_to_history_Some)
  have full: "\<forall>x xs. prev = Some (x # xs) \<longrightarrow> length xs = 49 \<longrightarrow> add_to_history prev e = xs @ [e]"
    by (simp add: add_to_history_Some)
  have sess: "isMounted s \<longrightarrow>
         history (submit_settle s req new_id now (Inr a)) =
           Some (add_to_history (req_history req)
                   \<lparr>entry_id = new_id, entry_timestamp = now,
                    entry_originalMessage = req_message req, entry_result = a,
                    entry_model = req_model req\<rparr>)"
    by (simp add: submit_settle_def safeSetState_def)
  from len lst small big full sess show ?thesis by blast
qed

text \<open>
  Claim C9 at a history of 50 entries, at a short history, and at a first entry stored by
  a settled analysis.
\<close>

theorem history_capped_witness:
  "length (add_to_history (Some (0 # replicate 49 (1::nat))) 2) \<le> 50
   \<and> add_to_history (Some (0 # replicate 49 (1::nat))) 2 = replicate 49 1 @ [2]
   \<and> add_to_history (Some [1, 2]) (3::nat) = [1, 2, 3]
   \<and> length (the (history (submit_settle (initial_chat ''k'' ''m'' None)
         \<lparr>req_message = ''hi'', req_apiKey = ''k'', req_model = ''m'', req_controller = 0,
          req_history = None\<rparr> ''id'' 7 (Inr sample_analysis)))) = 1"
proof -
  note h = history_capped [of "Some (0 # replicate 49 (1::nat))" 2]
  note g = history_capped [of "Some [1, 2]" "3::nat"]
  note k = history_capped [of None "0::nat" "initial_chat ''k'' ''m'' None"
      "\<lparr>req_message = ''hi'', req_apiKey = ''k'', req_model = ''m'', req_controller = 0,
          req_history = None\<rparr>" "''id''" 7 sample_analysis]
  from h have "length (add_to_history (Some (0 # replicate 49 (1::nat))) 2) \<le> 50" by blast
  moreover from h have "add_to_history (Some (0 # replicate 49 (1::nat))) 2 = replicate 49 1 @ [2]"
    by simp
  moreover from g have "add_to_history (Some [1, 2]) (3::nat) = [1, 2, 3]" by simp
  moreover from k have "length (the (history (submit_settle (initial_chat ''k'' ''m'' None)
         \<lparr>req_message = ''hi'', req_apiKey = ''k'', req_model = ''m'', req_controller = 0,
          req_history = None\<rparr> ''id'' 7 (Inr sample_analysis)))) = 1"
    by (simp add: initial_chat_def add_to_history_def slice_last_def)
  ultimately show ?thesis by blast
qed

section \<open>The order of the input checks\<close>

lemma blank_cases:
  "blank None" "blank (Some JNull)" "blank (Some (JBool b))" "blank (Some (JNum l))"
  "blank (Some (JArr xs))" "blank (Some (JObj kvs))"
  "blank (Some (JStr s)) = (trim s = [])"
  by (auto simp add: blank_def trim_def)

text \<open>
  Claim C10. The message is checked before the key: a message that is not a string, is
  empty or holds white space only is rejected with \<^verbatim>\<open>INVALID_RESPONSE\<close>
  ``Message is required'' before any attempt, whatever the key; the local
  \<^verbatim>\<open>INVALID_API_KEY\<close> ``API key is required'' error, raised before any attempt, occurs
  only for a message that is not blank and a key that is.
\<close>

theorem message_checked_before_key:
  "(blank message \<longrightarrow>
      analyzeMessage net message key opts now =
        \<lparr>outcome = Inl (AIError ''Message is required'' INVALID_RESPONSE None),
         attempts = 0, delays = [], finished = now\<rparr>)
   \<and> (\<not> blank message \<and> blank key \<longrightarrow>
      analyzeMessage net message key opts now =
        \<lparr>outcome = Inl (AIError ''API key is required'' INVALID_API_KEY None),
         attempts = 0, delays = [], finished = now\<rparr>)
   \<and> (outcome (analyzeMessage net message key opts now) =
          Inl (AIError ''API key is required'' INVALID_API_KEY None)
        \<and> attempts (analyzeMessage net message key opts now) = 0
      \<longrightarrow> \<not> blank message \<and> blank key)
   \<and> (blank message \<longleftrightarrow> (\<forall>s. message = Some (JStr s) \<longrightarrow> list_all js_space s))"
proof -
  have a: "blank message \<longrightarrow>
      analyzeMessage net message key opts now =
        \<lparr>outcome = Inl (AIError ''Message is required'' INVALID_RESPONSE None),
         attempts = 0, delays = [], finished = now\<rparr>"
    by (simp add: analyzeMessage_def)
  have b: "\<not> blank message \<and> blank key \<longrightarrow>
      analyzeMessage net message key opts now =
        \<lparr>outcome = Inl (AIError ''API key is required'' INVALID_API_KEY None),
         attempts = 0, delays = [], finished = now\<rparr>"
    by (simp add: analyzeMessage_def)
  have c: "outcome (analyzeMessage net message key opts now) =
          Inl (AIError ''API key is required'' INVALID_API_KEY None)
        \<and> attempts (analyzeMessage net message key opts now) = 0
      \<longrightarrow> \<not> blank message \<and> blank key"
  proof (intro impI)
    assume h: "outcome (analyzeMessage net message key opts now) =
          Inl (AIError ''API key is required'' INVALID_API_KEY None)
        \<and> attempts (analyzeMessage net message key opts now) = 0"
    show "\<not> blank message \<and> blank key"
    proof (rule ccontr)
      assume n: "\<not> (\<not> blank message \<and> blank key)"
      show False
      proof (cases "blank message")
        case True
        with h show False by (simp add: analyzeMessage_def)
      next
        case False
        with n have nk: "\<not> blank key" by simp
        with False have eq: "analyzeMessage net message key opts now =
            retry_loop net opts (str_length message) 1 now None []"
          by (simp add: analyzeMessage_def)
        show False
        proof (cases "1 \<le> maxRetries opts")
          case True
          from retry_loop_attempts_ge [OF True, of net "str_length message" now None "[]"] h eq
          show False by simp
        next
          case False
          then have "retry_loop net opts (str_length message) 1 now None [] =
              \<lparr>outcome = Inl (AIError ''Request failed after retries'' UNKNOWN None),
               attempts = 0, delays = [], finished = now\<rparr>"
            by (subst retry_loop.simps) simp
          with h eq show False by simp
        qed
      qed
    qed
  qed
  have dw: "\<And>s. (\<forall>x\<in>set (dropWhile js_space s). js_space x) = (\<forall>x\<in>set s. js_space x)"
  proof -
    fix s show "(\<forall>x\<in>set (dropWhile js_space s). js_space x) = (\<forall>x\<in>set s. js_space x)"
      by (induction s) auto
  qed
  have tr: "\<And>s. (trim s = []) = list_all js_space s"
    by (simp add: trim_def dropWhile_eq_Nil_conv list_all_iff dw)
  have d: "blank message \<longleftrightarrow> (\<forall>s. message = Some (JStr s) \<longrightarrow> list_all js_space s)"
  proof (cases message)
    case None
    then show ?thesis by (simp add: blank_cases)
  next
    case (Some v)
    then show ?thesis by (cases v) (simp_all add: blank_cases tr)
  qed
  from a b c d show ?thesis by blast
qed

text \<open>
  Claim C10 at a message of white space with an empty key, at a message that is a
  number with an empty key, and at a proper message with an empty key.
\<close>

theorem message_checked_before_key_witness:
  "analyzeMessage (always 0 (Responds 200 [])) (Some (JStr ''  '')) (Some (JStr [])) default_options 7 =
     \<lparr>outcome = Inl (AIError ''Message is required'' INVALID_RESPONSE None),
      attempts = 0, delays = [], finished = 7\<rparr>
   \<and> analyzeMessage (always 0 (Responds 200 [])) (Some (JNum ''5'')) (Some (JStr [])) default_options 7 =
     \<lparr>outcome = Inl (AIError ''Message is required'' INVALID_RESPONSE None),
      attempts = 0, delays = [], finished = 7\<rparr>
   \<and> analyzeMessage (always 0 (Responds 200 [])) (Some (JStr ''hi'')) (Some (JStr [])) default_options 7 =
     \<lparr>outcome = Inl (AIError ''API key is required'' INVALID_API_KEY None),
      attempts = 0, delays = [], finished = 7\<rparr>"
proof -
  have b1: "blank (Some (JStr ''  ''))" by (simp add: blank_def trim_def js_space_def)
  have b2: "blank (Some (JNum ''5''))" by (simp add: blank_def)
  have b3: "\<not> blank (Some (JStr ''hi'')) \<and> blank (Some (JStr []))"
    by (simp add: blank_def trim_def js_space_def)
  from message_checked_before_key [of "Some (JStr ''  '')" "always 0 (Responds 200 [])"
      "Some (JStr [])" default_options 7] b1
    message_checked_before_key [of "Some (JNum ''5'')" "always 0 (Responds 200 [])"
      "Some (JStr [])" default_options 7] b2
    message_checked_before_key [of "Some (JStr ''hi'')" "always 0 (Responds 200 [])"
      "Some (JStr [])" default_options 7] b3
  show ?thesis by blast
qed

end
